theory Spec2Isabelle
  imports Main
begin

section \<open>The Elasticsearch storage manager of finala\<close>

text \<open>
  A shallow embedding of the three read operations of
  \<^verbatim>\<open>api/storage/elasticsearch/elasticsearch.go\<close>: \<^verbatim>\<open>GetSummary\<close>,
  \<^verbatim>\<open>GetExecutions\<close> and \<^verbatim>\<open>GetResources\<close>, with
  \<^verbatim>\<open>getResourceSummaryDetails\<close>.

  The Elasticsearch client is an external collaborator. It is modelled by the pair
  \<^verbatim>\<open>(searchResult, err)\<close> that \<^verbatim>\<open>sm.client.Search()...Do(ctx)\<close> hands back
  for each query the file builds. Both components are kept: \<^verbatim>\<open>searchResult\<close> is a Go
  pointer and may be \<^verbatim>\<open>nil\<close>, \<^verbatim>\<open>err\<close> is an interface value and may be
  \<^verbatim>\<open>nil\<close>. A Go panic is the left summand of every operation's result.
\<close>

subsection \<open>Data\<close>

text \<open>A Go \<^verbatim>\<open>error\<close> value, by its message.\<close>

datatype error = Error string

text \<open>
  The two run-time panics the read operations can raise: reading a field through a
  \<^verbatim>\<open>nil\<close> \<^verbatim>\<open>*elastic.SearchResult\<close>, and assigning to an entry of a
  \<^verbatim>\<open>nil\<close> map.
\<close>

datatype panic = NilPointerDereference | NilMapAssignment

text \<open>
  The types of package \<^verbatim>\<open>storage\<close> that the file uses. Their declarations are
  not part of the file; the fields are the ones lines 163--176 and 188--189 and 289--293
  read and write. \<^verbatim>\<open>EventTime\<close> is an integer of unix seconds and is only compared,
  \<^verbatim>\<open>ResourceCount\<close> is an \<^verbatim>\<open>int64\<close> that is only copied, and
  \<^verbatim>\<open>TotalSpent\<close> is a \<^verbatim>\<open>float64\<close>, kept abstract as the type \<open>'f\<close> with
  its zero value.
\<close>

record SummaryData =
  Status :: int
  ErrorMessage :: string

record Summary =
  ResourceName :: string
  EventTime :: int
  Data :: SummaryData

record 'f CollectorsSummary =
  ResourceName :: string
  ResourceCount :: int
  TotalSpent :: 'f
  Status :: int
  ErrorMessage :: string
  EventTime :: int

text \<open>\<^verbatim>\<open>time.Unix(sec, nsec)\<close>.\<close>

datatype Time = Unix int int

record Executions =
  ID :: string
  Name :: string
  Time :: Time

text \<open>
  \<^verbatim>\<open>orderedExecutionIDs\<close> (lines 18--22): the buckets, each by its \<^verbatim>\<open>Key\<close>.
\<close>

record orderedExecutionIDs =
  Buckets :: "string list"

text \<open>
  An \<^verbatim>\<open>elastic.SearchResult\<close>, by what the accessors used in the file read from it:
  \<^item> \<open>TookInMillis\<close>: the field of that name;
  \<^item> \<open>Each\<close>: the values of \<^verbatim>\<open>searchResult.Each(reflect.TypeOf(summaryData))\<close>,
    \<open>None\<close> for a value that the type assertion \<^verbatim>\<open>item.(storage.Summary)\<close> rejects;
  \<^item> \<open>Hits\<close>: for each element of \<^verbatim>\<open>searchResult.Hits.Hits\<close>, what
    \<^verbatim>\<open>json.Unmarshal([]byte(string(hit.Source)), &rowData)\<close> leaves in
    \<^verbatim>\<open>rowData\<close> and the error it returns. The open field map
    \<^verbatim>\<open>map[string]interface{}\<close> is the abstract type \<open>'d\<close>;
  \<^item> \<open>TotalHits\<close>: \<^verbatim>\<open>searchResult.Hits.TotalHits.Value\<close>;
  \<^item> \<open>Terms_sum\<close>: the result of \<^verbatim>\<open>searchResult.Aggregations.Terms("sum")\<close>,
    \<open>None\<close> when its \<^verbatim>\<open>ok\<close> is false, and else \<^verbatim>\<open>resp.Aggregations\<close> with
    each raw message as the \<^verbatim>\<open>float64\<close> that \<^verbatim>\<open>strconv.ParseFloat\<close>
    returns for it;
  \<^item> \<open>Terms_orderedExecutionID\<close>: the result of
    \<^verbatim>\<open>searchResult.Aggregations.Terms("orderedExecutionID")\<close>, \<open>None\<close> when its
    \<^verbatim>\<open>ok\<close> is false, and else for each element of \<^verbatim>\<open>resp.Buckets\<close> what
    \<^verbatim>\<open>json.Unmarshal\<close> of its \<^verbatim>\<open>Aggregations["ExecutionIDDesc"]\<close> leaves
    in \<^verbatim>\<open>executionsIDs\<close> and the error it returns. Every element of
    \<^verbatim>\<open>resp.Buckets\<close> is a bucket: the array of the answer holds no
    \<^verbatim>\<open>null\<close>.

  A result that is not \<^verbatim>\<open>nil\<close> is a complete search response: its
  \<^verbatim>\<open>Hits\<close> and \<^verbatim>\<open>Hits.TotalHits\<close> are present.
\<close>

record ('f, 'd) SearchResult =
  TookInMillis :: int
  Each :: "Summary option list"
  Hits :: "('d \<times> error option) list"
  TotalHits :: int
  Terms_sum :: "(string \<Rightarrow> 'f option) option"
  Terms_orderedExecutionID :: "(orderedExecutionIDs \<times> error option) list option"

text \<open>
  The four searches the file sends:
  \<^item> \<open>SummaryQuery executionID\<close> (lines 138--142): \<^verbatim>\<open>EventType\<close> matches
    \<^verbatim>\<open>service_status\<close> and \<^verbatim>\<open>ExecutionID\<close> matches, size 100;
  \<^item> \<open>SummaryDetailsQuery filters executionID\<close> (lines 204--211): one match per entry
    of \<^verbatim>\<open>filters\<close>, \<^verbatim>\<open>ExecutionID\<close> matches, \<^verbatim>\<open>EventType\<close> matches
    \<^verbatim>\<open>resource_detected\<close>, with the sum aggregation over
    \<^verbatim>\<open>Data.PricePerMonth\<close>, size 0;
  \<^item> \<open>ExecutionsQuery queryLimit\<close> (lines 246--250): the filters aggregation
    \<^verbatim>\<open>orderedExecutionID\<close> over \<^verbatim>\<open>service_status\<close> events with the terms
    sub-aggregation \<^verbatim>\<open>ExecutionIDDesc\<close> of size \<^verbatim>\<open>queryLimit\<close>, ordered by
    \<^verbatim>\<open>MaxEventTime\<close> descending;
  \<^item> \<open>ResourcesQuery resourceType executionID\<close> (lines 303--313):
    \<^verbatim>\<open>EventType\<close> matches \<^verbatim>\<open>resource_detected\<close>, \<^verbatim>\<open>ExecutionID\<close> and
    \<^verbatim>\<open>ResourceName\<close> match, size 100.
\<close>

datatype query =
    SummaryQuery string
  | SummaryDetailsQuery "string \<Rightarrow> string option" string
  | ExecutionsQuery int
  | ResourcesQuery string string

text \<open>
  \<^verbatim>\<open>StorageManager\<close> (lines 44--47). \<open>client\<close> answers a search with the pair
  \<^verbatim>\<open>(searchResult, err)\<close> of \<^verbatim>\<open>Do\<close>.
\<close>

record ('f, 'd) StorageManager =
  client :: "query \<Rightarrow> ('f, 'd) SearchResult option \<times> error option"
  defaultIndex :: string

subsection \<open>The standard library functions of \<^verbatim>\<open>GetExecutions\<close>\<close>

text \<open>
  \<^verbatim>\<open>strings.Split(s, sep)\<close> for a separator of one character: the segments
  of \<open>s\<close> between the separators, in order. The result is never empty (lemma
  \<open>Split_not_Nil\<close>), so the second case of the inner \<open>case\<close> is never taken.
\<close>

fun Split :: "string \<Rightarrow> char \<Rightarrow> string list" where
  "Split [] sep = [[]]"
| "Split (c # cs) sep =
     (if c = sep then [] # Split cs sep
      else (case Split cs sep of
              x # xs \<Rightarrow> (c # x) # xs
            | [] \<Rightarrow> [[c]]))"

text \<open>\<^verbatim>\<open>strings.Join(elems, sep)\<close>.\<close>

fun Join :: "string list \<Rightarrow> string \<Rightarrow> string" where
  "Join [] sep = []"
| "Join [x] sep = x"
| "Join (x # y # ys) sep = x @ sep @ Join (y # ys) sep"

definition isDigit :: "char \<Rightarrow> bool" where
  "isDigit c = (c \<in> set ''0123456789'')"

definition digitVal :: "char \<Rightarrow> int" where
  "digitVal c = of_char c - of_char (CHR ''0'')"

text \<open>
  \<^verbatim>\<open>strconv.ParseUint(s, 10, 64)\<close>: \<open>None\<close> for a syntax error (no digits, or a
  character that is not a decimal digit) and for a value above \<open>2 ^ 64 - 1\<close>.
\<close>

definition ParseUint :: "string \<Rightarrow> int option" where
  "ParseUint s =
     (if s = [] \<or> \<not> list_all isDigit s then None
      else let n = foldl (\<lambda>n c. 10 * n + digitVal c) 0 s
           in if n < 2 ^ 64 then Some n else None)"

text \<open>
  \<^verbatim>\<open>strconv.ParseInt(s, 10, 64)\<close>: an optional sign, then
  \<^verbatim>\<open>ParseUint\<close>, then the range check of \<^verbatim>\<open>int64\<close>. \<open>None\<close> is a
  returned error.
\<close>

definition ParseInt :: "string \<Rightarrow> int option" where
  "ParseInt s =
     (if s = [] then None
      else let neg = (hd s = CHR ''-'');
               s' = (if hd s = CHR ''+'' \<or> hd s = CHR ''-'' then tl s else s)
           in case ParseUint s' of
                None \<Rightarrow> None
              | Some un \<Rightarrow>
                  if \<not> neg \<and> un \<ge> 2 ^ 63 then None
                  else if neg \<and> un > 2 ^ 63 then None
                  else Some (if neg then - un else un))"

subsection \<open>\<^verbatim>\<open>GetExecutions\<close>\<close>

text \<open>
  The inner loop, lines 274--294, over \<^verbatim>\<open>executionsIDs.Buckets\<close>; it appends to
  \<^verbatim>\<open>executions\<close>. \<^verbatim>\<open>data[:len(data)-1]\<close> is \<open>butlast data\<close> and
  \<^verbatim>\<open>data[len(data)-1]\<close> is \<open>last data\<close>: \<^verbatim>\<open>strings.Split\<close> never returns an
  empty slice (lemma \<open>Split_not_Nil\<close>), so both expressions are in range.
\<close>

fun decodeExecutionIDs :: "string list \<Rightarrow> Executions list \<Rightarrow> Executions list" where
  "decodeExecutionIDs [] executions = executions"
| "decodeExecutionIDs (executionID # rest) executions =
     (let data = Split executionID (CHR ''_'');
          executionName = Join (butlast data) ''_''
      in case ParseInt (last data) of
           None \<Rightarrow> decodeExecutionIDs rest executions
         | Some collectorExecutionTime \<Rightarrow>
             decodeExecutionIDs rest
               (executions @
                 [\<lparr>ID = executionID, Name = executionName,
                   Time = Unix collectorExecutionTime 0\<rparr>]))"

text \<open>
  What one pass of the loop body, lines 275--293, makes of an identifier: the record that
  line 289 appends, or \<open>None\<close> when line 286 skips the identifier. It is used to
  state what the loops return (lemma \<open>decodeExecutionIDs_eq\<close>).
\<close>

definition executionOf :: "string \<Rightarrow> Executions option" where
  "executionOf executionID =
     (let data = Split executionID (CHR ''_'');
          executionName = Join (butlast data) ''_''
      in case ParseInt (last data) of
           None \<Rightarrow> None
         | Some collectorExecutionTime \<Rightarrow>
             Some \<lparr>ID = executionID, Name = executionName,
                   Time = Unix collectorExecutionTime 0\<rparr>)"

text \<open>
  The outer loop, lines 265--295, over \<^verbatim>\<open>resp.Buckets\<close>. The error of
  \<^verbatim>\<open>json.Unmarshal\<close> is logged (lines 270--272) and the loop goes on with what
  \<^verbatim>\<open>executionsIDs\<close> holds.
\<close>

fun decodeBuckets ::
  "(orderedExecutionIDs \<times> error option) list \<Rightarrow> Executions list \<Rightarrow> Executions list" where
  "decodeBuckets [] executions = executions"
| "decodeBuckets ((executionsIDs, err) # rest) executions =
     decodeBuckets rest (decodeExecutionIDs (Buckets executionsIDs) executions)"

text \<open>
  \<^verbatim>\<open>GetExecutions\<close> (lines 240--297). In the branch \<^verbatim>\<open>nil != err\<close> the log
  statement of lines 253--255 reads \<^verbatim>\<open>searchResult.TookInMillis\<close> before the
  return of line 256; line 259 reads \<^verbatim>\<open>searchResult.Aggregations\<close>.
\<close>

definition GetExecutions ::
  "('f, 'd) StorageManager \<Rightarrow> int \<Rightarrow> panic + (Executions list \<times> error option)" where
  "GetExecutions sm queryLimit =
     (let executions = [] in
      case client sm (ExecutionsQuery queryLimit) of
        (searchResult, Some err) \<Rightarrow>
          (case searchResult of
             None \<Rightarrow> Inl NilPointerDereference
           | Some r \<Rightarrow> Inr (executions, None))
      | (searchResult, None) \<Rightarrow>
          (case searchResult of
             None \<Rightarrow> Inl NilPointerDereference
           | Some r \<Rightarrow>
               (case Terms_orderedExecutionID r of
                  None \<Rightarrow> Inr (executions, None)
                | Some resp \<Rightarrow> Inr (decodeBuckets resp executions, None))))"

subsection \<open>\<^verbatim>\<open>GetSummary\<close>\<close>

text \<open>
  \<^verbatim>\<open>getResourceSummaryDetails\<close> (lines 199--237). \<^verbatim>\<open>filters\<close> is only read
  here. In the branch \<^verbatim>\<open>nil != err\<close> the log statement of lines 214--217 reads
  \<^verbatim>\<open>searchResult.TookInMillis\<close> before the return of line 219; lines 222--225
  read the same field when \<^verbatim>\<open>err\<close> is \<^verbatim>\<open>nil\<close>.
\<close>

definition getResourceSummaryDetails ::
  "('f::zero, 'd) StorageManager \<Rightarrow> string \<Rightarrow> (string \<Rightarrow> string option) \<Rightarrow>
     panic + ('f \<times> int \<times> error option)" where
  "getResourceSummaryDetails sm executionID filters =
     (let totalSpent = 0; resourceCount = 0 in
      case client sm (SummaryDetailsQuery filters executionID) of
        (searchResult, Some err) \<Rightarrow>
          (case searchResult of
             None \<Rightarrow> Inl NilPointerDereference
           | Some r \<Rightarrow> Inr (totalSpent, resourceCount, Some err))
      | (searchResult, None) \<Rightarrow>
          (case searchResult of
             None \<Rightarrow> Inl NilPointerDereference
           | Some r \<Rightarrow>
               (case Terms_sum r of
                  None \<Rightarrow> Inr (totalSpent, resourceCount, None)
                | Some resp \<Rightarrow>
                    (case resp ''value'' of
                       None \<Rightarrow> Inr (totalSpent, resourceCount, None)
                     | Some val \<Rightarrow> Inr (val, TotalHits r, None)))))"

text \<open>
  The first loop of \<^verbatim>\<open>GetSummary\<close>, lines 155--177, over the values of
  \<^verbatim>\<open>Each\<close>; \<^verbatim>\<open>summary\<close> is the map it updates.
  \<open>newSummaryRow\<close> is the composite literal of lines 171--176: the fields
  \<^verbatim>\<open>TotalSpent\<close> and \<^verbatim>\<open>ResourceCount\<close> are not named in it and so
  hold their zero values. Line 168 deletes the entry before line 171 writes it again.
\<close>

definition newSummaryRow :: "Summary \<Rightarrow> 'f::zero CollectorsSummary" where
  "newSummaryRow summaryRow =
     \<lparr>CollectorsSummary.ResourceName = Summary.ResourceName summaryRow,
      ResourceCount = 0,
      TotalSpent = 0,
      Status = SummaryData.Status (Data summaryRow),
      ErrorMessage = SummaryData.ErrorMessage (Data summaryRow),
      EventTime = Summary.EventTime summaryRow\<rparr>"

fun mergeSummary ::
  "Summary option list \<Rightarrow> (string \<Rightarrow> 'f::zero CollectorsSummary option) \<Rightarrow>
     (string \<Rightarrow> 'f CollectorsSummary option)" where
  "mergeSummary [] summary = summary"
| "mergeSummary (item # rest) summary =
     (case item of
        None \<Rightarrow> mergeSummary rest summary
      | Some summaryRow \<Rightarrow>
          (case summary (Summary.ResourceName summaryRow) of
             Some val \<Rightarrow>
               if Summary.EventTime summaryRow < CollectorsSummary.EventTime val
               then mergeSummary rest summary
               else mergeSummary rest
                      ((summary(Summary.ResourceName summaryRow := None))
                         (Summary.ResourceName summaryRow \<mapsto> newSummaryRow summaryRow))
           | None \<Rightarrow>
               mergeSummary rest
                 (summary(Summary.ResourceName summaryRow \<mapsto> newSummaryRow summaryRow))))"

text \<open>
  The second loop of \<^verbatim>\<open>GetSummary\<close>, lines 179--192. Its first argument after the
  execution identifier is the order in which \<^verbatim>\<open>range summary\<close> visits the keys,
  which Go leaves open. \<^verbatim>\<open>filters\<close> is the caller's map, \<open>None\<close> when it is
  \<^verbatim>\<open>nil\<close>; line 180 writes into it, so the loop hands it back with
  \<^verbatim>\<open>summary\<close>. A name that is not a key of \<^verbatim>\<open>summary\<close> is not visited.
\<close>

fun summaryDetails ::
  "('f::zero, 'd) StorageManager \<Rightarrow> string \<Rightarrow> string list \<Rightarrow>
     (string \<Rightarrow> 'f CollectorsSummary option) \<Rightarrow> (string \<Rightarrow> string option) option \<Rightarrow>
     panic + ((string \<Rightarrow> 'f CollectorsSummary option) \<times> (string \<Rightarrow> string option) option)" where
  "summaryDetails sm executionID [] summary filters = Inr (summary, filters)"
| "summaryDetails sm executionID (resourceName # rest) summary filters =
     (case summary resourceName of
        None \<Rightarrow> summaryDetails sm executionID rest summary filters
      | Some resourceData \<Rightarrow>
          (case filters of
             None \<Rightarrow> Inl NilMapAssignment
           | Some f \<Rightarrow>
               (let filters' = f(''ResourceName'' \<mapsto> resourceName) in
                case getResourceSummaryDetails sm executionID filters' of
                  Inl p \<Rightarrow> Inl p
                | Inr (totalSpent, resourceCount, err) \<Rightarrow>
                    (case err of
                       Some e \<Rightarrow> summaryDetails sm executionID rest summary (Some filters')
                     | None \<Rightarrow>
                         summaryDetails sm executionID rest
                           (summary(resourceName \<mapsto>
                              resourceData\<lparr>TotalSpent := totalSpent,
                                             ResourceCount := resourceCount\<rparr>))
                           (Some filters')))))"

text \<open>
  What one pass of the body of the second loop, lines 180--190, makes of the row of a
  resource name, when \<open>f\<close> is the filters map before line 180: the row with the cost
  and the count of the cost query, or the row as it is when the query returns an error.
  It is used to state what the loop returns (lemma \<open>summaryDetails_eq\<close>).
\<close>

definition withDetails ::
  "('f::zero, 'd) StorageManager \<Rightarrow> string \<Rightarrow> (string \<Rightarrow> string option) \<Rightarrow> string \<Rightarrow>
     'f CollectorsSummary \<Rightarrow> 'f CollectorsSummary" where
  "withDetails sm executionID f resourceName resourceData =
     (case getResourceSummaryDetails sm executionID (f(''ResourceName'' \<mapsto> resourceName)) of
        Inr (totalSpent, resourceCount, None) \<Rightarrow>
          resourceData\<lparr>TotalSpent := totalSpent, ResourceCount := resourceCount\<rparr>
      | _ \<Rightarrow> resourceData)"

text \<open>
  \<open>rangeOrder keys summary\<close>: \<open>keys\<close> is an order in which
  \<^verbatim>\<open>range summary\<close> can visit the map, each key once.
\<close>

definition rangeOrder :: "string list \<Rightarrow> (string \<Rightarrow> 'a option) \<Rightarrow> bool" where
  "rangeOrder keys summary = (distinct keys \<and> set keys = dom summary)"

text \<open>
  \<^verbatim>\<open>GetSummary\<close> (lines 128--196). \<open>keys\<close> is the order of the range loop of
  line 179. The result holds the two returned values and \<^verbatim>\<open>filters\<close> as the call
  leaves it. Lines 149--152 read \<^verbatim>\<open>searchResult.TookInMillis\<close> when
  \<^verbatim>\<open>err\<close> is \<^verbatim>\<open>nil\<close>.
\<close>

definition GetSummary ::
  "('f::zero, 'd) StorageManager \<Rightarrow> string list \<Rightarrow> string \<Rightarrow> (string \<Rightarrow> string option) option \<Rightarrow>
     panic + ((string \<Rightarrow> 'f CollectorsSummary option) \<times> error option \<times>
              (string \<Rightarrow> string option) option)" where
  "GetSummary sm keys executionID filters =
     (let summary = Map.empty in
      case client sm (SummaryQuery executionID) of
        (searchResult, Some err) \<Rightarrow> Inr (summary, Some err, filters)
      | (searchResult, None) \<Rightarrow>
          (case searchResult of
             None \<Rightarrow> Inl NilPointerDereference
           | Some r \<Rightarrow>
               (case summaryDetails sm executionID keys
                       (mergeSummary (Each r) summary) filters of
                  Inl p \<Rightarrow> Inl p
                | Inr (summary', filters') \<Rightarrow> Inr (summary', None, filters'))))"

subsection \<open>\<^verbatim>\<open>GetResources\<close>\<close>

text \<open>
  The loop of lines 320--329 over \<^verbatim>\<open>searchResult.Hits.Hits\<close>. The error of
  \<^verbatim>\<open>json.Unmarshal\<close> is logged (lines 324--326) and line 328 appends
  \<^verbatim>\<open>rowData\<close> in either case.
\<close>

fun appendHits :: "('d \<times> error option) list \<Rightarrow> 'd list \<Rightarrow> 'd list" where
  "appendHits [] resources = resources"
| "appendHits ((rowData, err) # rest) resources = appendHits rest (resources @ [rowData])"

text \<open>\<^verbatim>\<open>GetResources\<close> (lines 300--332).\<close>

definition GetResources ::
  "('f, 'd) StorageManager \<Rightarrow> string \<Rightarrow> string \<Rightarrow> panic + ('d list \<times> error option)" where
  "GetResources sm resourceType executionID =
     (let resources = [] in
      case client sm (ResourcesQuery resourceType executionID) of
        (searchResult, Some err) \<Rightarrow> Inr (resources, Some err)
      | (searchResult, None) \<Rightarrow>
          (case searchResult of
             None \<Rightarrow> Inl NilPointerDereference
           | Some r \<Rightarrow> Inr (appendHits (Hits r) resources, None)))"

section \<open>Stores used in the examples\<close>

text \<open>A search response with no hits and no aggregations.\<close>

definition emptyResult :: "('f, 'd) SearchResult" where
  "emptyResult =
     \<lparr>TookInMillis = 0, Each = [], Hits = [], TotalHits = 0, Terms_sum = None,
      Terms_orderedExecutionID = None\<rparr>"

text \<open>
  A store that answers the executions query with one outer bucket holding the given
  execution identifiers, whatever the limit.
\<close>

definition executionsStore :: "string list \<Rightarrow> ('f, 'd) StorageManager" where
  "executionsStore ids =
     \<lparr>client = (\<lambda>q. case q of
          ExecutionsQuery queryLimit \<Rightarrow>
            (Some (emptyResult\<lparr>Terms_orderedExecutionID := Some [(\<lparr>Buckets = ids\<rparr>, None)]\<rparr>), None)
        | _ \<Rightarrow> (Some emptyResult, None)),
      defaultIndex = ''general''\<rparr>"

text \<open>
  A \<^verbatim>\<open>service_status\<close> document with the given resource name, event time and
  status, and an empty error message.
\<close>

definition statusDocument :: "string \<Rightarrow> int \<Rightarrow> int \<Rightarrow> Summary" where
  "statusDocument name time status =
     \<lparr>Summary.ResourceName = name, EventTime = time,
      Data = \<lparr>SummaryData.Status = status, ErrorMessage = []\<rparr>\<rparr>"

text \<open>
  The answer to a cost query whose sum aggregation has the value \<open>v\<close> over \<open>n\<close>
  matching documents.
\<close>

definition sumResponse :: "'f \<Rightarrow> int \<Rightarrow> ('f, 'd) SearchResult option \<times> error option" where
  "sumResponse v n =
     (Some (emptyResult\<lparr>TotalHits := n, Terms_sum := Some [''value'' \<mapsto> v]\<rparr>), None)"

text \<open>
  A store that answers the status query with the given values of \<^verbatim>\<open>Each\<close> and a
  cost query by \<open>details\<close>, a function of the filters of the query.
\<close>

definition summaryStore ::
  "Summary option list \<Rightarrow>
   ((string \<Rightarrow> string option) \<Rightarrow> ('f, 'd) SearchResult option \<times> error option) \<Rightarrow>
   ('f, 'd) StorageManager" where
  "summaryStore items details =
     \<lparr>client = (\<lambda>q. case q of
          SummaryQuery executionID \<Rightarrow> (Some (emptyResult\<lparr>Each := items\<rparr>), None)
        | SummaryDetailsQuery filters executionID \<Rightarrow> details filters
        | _ \<Rightarrow> (Some emptyResult, None)),
      defaultIndex = ''general''\<rparr>"

text \<open>A store that answers the resources query with the given hits.\<close>

definition resourcesStore :: "('d \<times> error option) list \<Rightarrow> ('f, 'd) StorageManager" where
  "resourcesStore hits =
     \<lparr>client = (\<lambda>q. case q of
          ResourcesQuery resourceType executionID \<Rightarrow> (Some (emptyResult\<lparr>Hits := hits\<rparr>), None)
        | _ \<Rightarrow> (Some emptyResult, None)),
      defaultIndex = ''general''\<rparr>"

text \<open>
  A store that cannot be reached: every search returns the error and, as
  \<^verbatim>\<open>Do\<close> of the Elasticsearch client does with every error, a \<^verbatim>\<open>nil\<close>
  result.
\<close>

definition unreachableStore :: "error \<Rightarrow> ('f, 'd) StorageManager" where
  "unreachableStore err = \<lparr>client = (\<lambda>q. (None, Some err)), defaultIndex = ''general''\<rparr>"

section \<open>The executions aggregation of the store\<close>

text \<open>
  Modelled from the spec: the document store itself is not part of the repository, so its
  answer to the executions query is modelled from sections 3 and 4.3 of the specification.
  An event document is given by the three fields the query reads:
  \<^verbatim>\<open>ExecutionID\<close>, \<^verbatim>\<open>EventType\<close> and \<^verbatim>\<open>EventTime\<close>.
\<close>

datatype EventDocument =
  EventDocument (documentExecutionID: string) (documentEventType: string) (documentEventTime: int)

text \<open>
  The sub-aggregation \<^verbatim>\<open>MaxEventTime\<close>: the maximum \<^verbatim>\<open>EventTime\<close> of the
  \<^verbatim>\<open>service_status\<close> events that carry the execution identifier.
\<close>

definition maxEventTime :: "EventDocument list \<Rightarrow> string \<Rightarrow> int" where
  "maxEventTime events executionID =
     Max (set (map documentEventTime
       (filter (\<lambda>e. documentEventType e = ''service_status'' \<and>
                     documentExecutionID e = executionID) events)))"

text \<open>
  The terms buckets of \<^verbatim>\<open>ExecutionIDDesc\<close> before the cap: the distinct execution
  identifiers of the \<^verbatim>\<open>service_status\<close> events, ordered descending by
  \<^verbatim>\<open>MaxEventTime\<close>.
\<close>

definition rankedExecutionIDs :: "EventDocument list \<Rightarrow> string list" where
  "rankedExecutionIDs events =
     sort_key (\<lambda>k. - maxEventTime events k)
       (remdups (map documentExecutionID
          (filter (\<lambda>e. documentEventType e = ''service_status'') events)))"

text \<open>
  A store holding the given event documents: it answers the executions query with one
  outer bucket (the query has one filter) whose terms buckets are the ranked identifiers,
  capped at the limit of the query.
\<close>

definition eventStore :: "EventDocument list \<Rightarrow> ('f, 'd) StorageManager" where
  "eventStore events =
     \<lparr>client = (\<lambda>q. case q of
          ExecutionsQuery queryLimit \<Rightarrow>
            (Some (emptyResult\<lparr>Terms_orderedExecutionID :=
               Some [(\<lparr>Buckets = take (nat queryLimit) (rankedExecutionIDs events)\<rparr>, None)]\<rparr>),
             None)
        | _ \<Rightarrow> (Some emptyResult, None)),
      defaultIndex = ''general''\<rparr>"

text \<open>
  Five executions with one or two \<^verbatim>\<open>service_status\<close> events each, and one
  \<^verbatim>\<open>resource_detected\<close> event of a sixth.
\<close>

definition fiveExecutions :: "EventDocument list" where
  "fiveExecutions =
     [EventDocument ''run-a_100'' ''service_status'' 100,
      EventDocument ''run-b_200'' ''service_status'' 210,
      EventDocument ''run-c_300'' ''service_status'' 310,
      EventDocument ''run-d_400'' ''service_status'' 150,
      EventDocument ''run-a_100'' ''service_status'' 105,
      EventDocument ''run-z_900'' ''resource_detected'' 999,
      EventDocument ''run-e_500'' ''service_status'' 510,
      EventDocument ''run-c_300'' ''service_status'' 305]"

section \<open>Properties\<close>

subsection \<open>Decoding execution identifiers\<close>

text \<open>
  \<^verbatim>\<open>strings.Split\<close> returns at least one segment, so lines 280 and 283 never
  slice or index out of range.
\<close>

lemma Split_not_Nil: "Split s sep \<noteq> []"
  by (induction s) (auto split: list.splits)

lemma Split_no_sep: "sep \<notin> set s \<Longrightarrow> Split s sep = [s]"
  by (induction s) auto

lemma Split_append_sep: "Split (a @ sep # b) sep = Split a sep @ Split b sep"
  by (induction a) (auto simp: Split_not_Nil split: list.splits)

lemma Join_Cons_Cons: "Join ((c # x) # xs) sep = c # Join (x # xs) sep"
  by (cases xs) auto

lemma Join_Split: "Join (Split s sep) [sep] = s"
proof (induction s)
  case Nil
  then show ?case by simp
next
  case (Cons c cs)
  obtain x xs where S: "Split cs sep = x # xs"
    using Split_not_Nil [of cs sep] by (cases "Split cs sep") auto
  with Cons show ?case
    by (auto simp: Join_Cons_Cons)
qed

lemma Split_last_segment:
  assumes "sep \<notin> set ts"
  shows "last (Split (name @ sep # ts) sep) = ts"
    and "butlast (Split (name @ sep # ts) sep) = Split name sep"
  using assms by (simp_all add: Split_append_sep Split_no_sep)

lemma ParseInt_nightly: "ParseInt ''1700000000'' = Some 1700000000"
  by code_simp

lemma ParseInt_42: "ParseInt ''42'' = Some 42"
  by code_simp

lemma ParseInt_noTimestamp: "ParseInt ''noTimestamp'' = None"
  by code_simp

text \<open>
  The loops of \<^verbatim>\<open>GetExecutions\<close> as one pass over the identifiers.
\<close>

lemma decodeExecutionIDs_eq:
  "decodeExecutionIDs ids executions = executions @ List.map_filter executionOf ids"
  by (induction ids arbitrary: executions)
     (auto simp: executionOf_def List.map_filter_simps Let_def split: option.splits)

lemma map_filter_append_local:
  "List.map_filter f (xs @ ys) = List.map_filter f xs @ List.map_filter f ys"
  by (simp add: List.map_filter_def)

lemma decodeBuckets_eq:
  "decodeBuckets resp executions =
     executions @ List.map_filter executionOf (concat (map (\<lambda>b. Buckets (fst b)) resp))"
  by (induction resp arbitrary: executions)
     (auto simp: decodeExecutionIDs_eq map_filter_append_local)

lemma GetExecutions_eq:
  "client sm (ExecutionsQuery queryLimit) = (Some r, None) \<Longrightarrow>
   Terms_orderedExecutionID r = Some resp \<Longrightarrow>
   GetExecutions sm queryLimit =
     Inr (List.map_filter executionOf (concat (map (\<lambda>b. Buckets (fst b)) resp)), None)"
  by (simp add: GetExecutions_def decodeBuckets_eq)

lemma executionOf_suffixed:
  "CHR ''_'' \<notin> set ts \<Longrightarrow>
   executionOf (name @ ''_'' @ ts) =
     (case ParseInt ts of
        None \<Rightarrow> None
      | Some t \<Rightarrow> Some \<lparr>ID = name @ ''_'' @ ts, Name = name, Time = Unix t 0\<rparr>)"
  by (simp add: executionOf_def Split_last_segment Join_Split split: option.splits)

lemma executionOf_single_segment:
  "CHR ''_'' \<notin> set s \<Longrightarrow>
   executionOf s =
     (case ParseInt s of
        None \<Rightarrow> None
      | Some t \<Rightarrow> Some \<lparr>ID = s, Name = [], Time = Unix t 0\<rparr>)"
  by (simp add: executionOf_def Split_no_sep split: option.splits)

lemma executionOf_ID: "executionOf k = Some e \<Longrightarrow> ID e = k"
  by (auto simp: executionOf_def Let_def split: option.splits)

lemma count_map_filter_executionOf:
  "length (filter (\<lambda>e. ID e = i) (List.map_filter executionOf ids)) =
     (if executionOf i = None then 0 else count_list ids i)"
  by (induction ids)
     (auto simp: List.map_filter_simps dest: executionOf_ID split: option.splits)

text \<open>
  Claim C5. Whatever the store answers to the executions query, \<^verbatim>\<open>GetExecutions\<close>
  returns, with a \<^verbatim>\<open>nil\<close> error, the records of the identifiers of all
  buckets, in the order of the answer, without the identifiers that give no record.
  An identifier is split on \<^verbatim>\<open>_\<close>: for \<open>name @ ''_'' @ ts\<close> with no
  \<^verbatim>\<open>_\<close> in \<open>ts\<close>, the text \<open>ts\<close> after the last delimiter is parsed as a
  base-10 integer and \<open>name\<close>, the segments before it joined again with
  \<^verbatim>\<open>_\<close>, is the name; when \<open>ts\<close> does not parse there is no record. An
  identifier with no delimiter that does not parse gives no record either. So
  \<^verbatim>\<open>nightly-scan_1700000000\<close> gives the name \<^verbatim>\<open>nightly-scan\<close> and the
  time 1700000000, \<^verbatim>\<open>a_b_c_42\<close> gives \<^verbatim>\<open>a_b_c\<close> and 42, and
  \<^verbatim>\<open>noTimestamp\<close> is skipped, wherever it stands, while the call returns the
  other records.
\<close>

theorem GetExecutions_splits_at_last_delimiter:
  assumes "client sm (ExecutionsQuery queryLimit) = (Some r, None)"
    and "Terms_orderedExecutionID r = Some resp"
  shows "GetExecutions sm queryLimit =
           Inr (List.map_filter executionOf (concat (map (\<lambda>b. Buckets (fst b)) resp)), None) \<and>
         (\<forall>name ts. CHR ''_'' \<notin> set ts \<longrightarrow>
            executionOf (name @ ''_'' @ ts) =
              (case ParseInt ts of
                 None \<Rightarrow> None
               | Some t \<Rightarrow> Some \<lparr>ID = name @ ''_'' @ ts, Name = name, Time = Unix t 0\<rparr>)) \<and>
         (\<forall>s. CHR ''_'' \<notin> set s \<and> ParseInt s = None \<longrightarrow> executionOf s = None) \<and>
         executionOf ''nightly-scan_1700000000'' =
           Some \<lparr>ID = ''nightly-scan_1700000000'', Name = ''nightly-scan'',
                 Time = Unix 1700000000 0\<rparr> \<and>
         executionOf ''a_b_c_42'' = Some \<lparr>ID = ''a_b_c_42'', Name = ''a_b_c'', Time = Unix 42 0\<rparr> \<and>
         executionOf ''noTimestamp'' = None"
proof (intro conjI allI impI)
  show "GetExecutions sm queryLimit =
           Inr (List.map_filter executionOf (concat (map (\<lambda>b. Buckets (fst b)) resp)), None)"
    using assms by (rule GetExecutions_eq)
next
  fix name ts
  assume "CHR ''_'' \<notin> set ts"
  then show "executionOf (name @ ''_'' @ ts) =
              (case ParseInt ts of
                 None \<Rightarrow> None
               | Some t \<Rightarrow> Some \<lparr>ID = name @ ''_'' @ ts, Name = name, Time = Unix t 0\<rparr>)"
    by (rule executionOf_suffixed)
next
  fix s
  assume "CHR ''_'' \<notin> set s \<and> ParseInt s = None"
  then show "executionOf s = None"
    by (simp add: executionOf_single_segment)
next
  show "executionOf ''nightly-scan_1700000000'' =
           Some \<lparr>ID = ''nightly-scan_1700000000'', Name = ''nightly-scan'',
                 Time = Unix 1700000000 0\<rparr>"
    using executionOf_suffixed [of "''1700000000''" "''nightly-scan''"]
    by (simp add: ParseInt_nightly)
next
  show "executionOf ''a_b_c_42'' = Some \<lparr>ID = ''a_b_c_42'', Name = ''a_b_c'', Time = Unix 42 0\<rparr>"
    using executionOf_suffixed [of "''42''" "''a_b_c''"]
    by (simp add: ParseInt_42)
next
  show "executionOf ''noTimestamp'' = None"
    using executionOf_single_segment [of "''noTimestamp''"]
    by (simp add: ParseInt_noTimestamp)
qed

theorem GetExecutions_splits_at_last_delimiter_witness:
  "GetExecutions
     (executionsStore [''noTimestamp'', ''nightly-scan_1700000000'', ''noTimestamp'', ''a_b_c_42'']
        :: (int, unit) StorageManager) 3 =
     Inr ([\<lparr>ID = ''nightly-scan_1700000000'', Name = ''nightly-scan'',
             Time = Unix 1700000000 0\<rparr>,
           \<lparr>ID = ''a_b_c_42'', Name = ''a_b_c'', Time = Unix 42 0\<rparr>], None) \<and>
   CHR ''_'' \<notin> set ''42'' \<and>
   executionOf (''a_b_c'' @ ''_'' @ ''42'') =
     Some \<lparr>ID = ''a_b_c'' @ ''_'' @ ''42'', Name = ''a_b_c'', Time = Unix 42 0\<rparr> \<and>
   CHR ''_'' \<notin> set ''noTimestamp'' \<and> ParseInt ''noTimestamp'' = None \<and>
   executionOf ''noTimestamp'' = None"
proof -
  let ?ids = "[''noTimestamp'', ''nightly-scan_1700000000'', ''noTimestamp'', ''a_b_c_42'']"
  let ?sm = "executionsStore ?ids :: (int, unit) StorageManager"
  let ?r = "emptyResult\<lparr>Terms_orderedExecutionID := Some [(\<lparr>Buckets = ?ids\<rparr>, None)]\<rparr>
              :: (int, unit) SearchResult"
  have q: "client ?sm (ExecutionsQuery 3) = (Some ?r, None)"
    by (simp add: executionsStore_def)
  have t: "Terms_orderedExecutionID ?r = Some [(\<lparr>Buckets = ?ids\<rparr>, None)]"
    by simp
  note inst = GetExecutions_splits_at_last_delimiter [OF q t]
  from inst have a: "GetExecutions ?sm 3 =
     Inr ([\<lparr>ID = ''nightly-scan_1700000000'', Name = ''nightly-scan'',
             Time = Unix 1700000000 0\<rparr>,
           \<lparr>ID = ''a_b_c_42'', Name = ''a_b_c'', Time = Unix 42 0\<rparr>], None)"
    by (simp add: List.map_filter_simps)
  have u: "CHR ''_'' \<notin> set ''42''"
    by simp
  from inst [THEN conjunct2, THEN conjunct1, rule_format, OF u, of "''a_b_c''"]
  have b: "executionOf (''a_b_c'' @ ''_'' @ ''42'') =
     Some \<lparr>ID = ''a_b_c'' @ ''_'' @ ''42'', Name = ''a_b_c'', Time = Unix 42 0\<rparr>"
    by (simp add: ParseInt_42)
  have n: "CHR ''_'' \<notin> set ''noTimestamp'' \<and> ParseInt ''noTimestamp'' = None"
    by (simp add: ParseInt_noTimestamp)
  from inst [THEN conjunct2, THEN conjunct2, THEN conjunct1, rule_format, OF n]
  have c: "executionOf ''noTimestamp'' = None" .
  from a u b n c show ?thesis by blast
qed

text \<open>
  Claim C10. When the answer of the store holds an identifier \<open>i\<close> without
  \<^verbatim>\<open>_\<close> whose whole text parses as the base-10 integer \<open>t\<close>,
  \<^verbatim>\<open>GetExecutions\<close> does not skip it: the call returns, with a \<^verbatim>\<open>nil\<close>
  error, a list that holds the record with the identifier \<open>i\<close>, the empty name and the
  time \<open>t\<close> in unix seconds, once for each occurrence of \<open>i\<close> in the answer, and
  no other record with that identifier.
\<close>

theorem GetExecutions_single_segment_integer:
  assumes "client sm (ExecutionsQuery queryLimit) = (Some r, None)"
    and "Terms_orderedExecutionID r = Some resp"
    and "i \<in> set (concat (map (\<lambda>b. Buckets (fst b)) resp))"
    and "CHR ''_'' \<notin> set i"
    and "ParseInt i = Some t"
  shows "\<exists>executions.
           GetExecutions sm queryLimit = Inr (executions, None) \<and>
           \<lparr>ID = i, Name = [], Time = Unix t 0\<rparr> \<in> set executions \<and>
           (\<forall>e \<in> set executions. ID e = i \<longrightarrow> e = \<lparr>ID = i, Name = [], Time = Unix t 0\<rparr>) \<and>
           length (filter (\<lambda>e. ID e = i) executions) =
             count_list (concat (map (\<lambda>b. Buckets (fst b)) resp)) i"
proof -
  let ?ids = "concat (map (\<lambda>b. Buckets (fst b)) resp)"
  let ?rec = "\<lparr>ID = i, Name = [], Time = Unix t 0\<rparr>"
  have e: "executionOf i = Some ?rec"
    using assms(4,5) by (simp add: executionOf_single_segment)
  have g: "GetExecutions sm queryLimit = Inr (List.map_filter executionOf ?ids, None)"
    using assms(1,2) by (rule GetExecutions_eq)
  have m: "?rec \<in> set (List.map_filter executionOf ?ids)"
    using assms(3) e by (force simp: List.map_filter_def)
  have u: "\<forall>e \<in> set (List.map_filter executionOf ?ids). ID e = i \<longrightarrow> e = ?rec"
  proof (intro ballI impI)
    fix x assume "x \<in> set (List.map_filter executionOf ?ids)" and "ID x = i"
    then obtain k where "executionOf k = Some x"
      by (auto simp: List.map_filter_def)
    with \<open>ID x = i\<close> e executionOf_ID [of k x] show "x = ?rec" by simp
  qed
  have c: "length (filter (\<lambda>e. ID e = i) (List.map_filter executionOf ?ids)) = count_list ?ids i"
    using e by (simp add: count_map_filter_executionOf)
  from g m u c show ?thesis by blast
qed

theorem GetExecutions_single_segment_integer_witness:
  "GetExecutions (executionsStore [''1700000000''] :: (int, unit) StorageManager) 3 =
     Inr ([\<lparr>ID = ''1700000000'', Name = [], Time = Unix 1700000000 0\<rparr>], None)"
proof -
  let ?sm = "executionsStore [''1700000000''] :: (int, unit) StorageManager"
  let ?r = "emptyResult\<lparr>Terms_orderedExecutionID := Some [(\<lparr>Buckets = [''1700000000'']\<rparr>, None)]\<rparr>
              :: (int, unit) SearchResult"
  have q: "client ?sm (ExecutionsQuery 3) = (Some ?r, None)"
    by (simp add: executionsStore_def)
  have t: "Terms_orderedExecutionID ?r = Some [(\<lparr>Buckets = [''1700000000'']\<rparr>, None)]"
    by simp
  have i: "''1700000000'' \<in> set (concat (map (\<lambda>b. Buckets (fst b)) [(\<lparr>Buckets = [''1700000000'']\<rparr>, None :: error option)]))"
    by simp
  have n: "CHR ''_'' \<notin> set ''1700000000''" by simp
  from GetExecutions_single_segment_integer [OF q t i n ParseInt_nightly]
  obtain executions where x: "GetExecutions ?sm 3 = Inr (executions, None)"
    "\<lparr>ID = ''1700000000'', Name = [], Time = Unix 1700000000 0\<rparr> \<in> set executions"
    "\<forall>e \<in> set executions. ID e = ''1700000000'' \<longrightarrow>
        e = \<lparr>ID = ''1700000000'', Name = [], Time = Unix 1700000000 0\<rparr>"
    "length (filter (\<lambda>e. ID e = ''1700000000'') executions) = 1"
    by auto
  have "executions = List.map_filter executionOf [''1700000000'']"
    using x(1) GetExecutions_eq [OF q t] by simp
  then have "length executions \<le> 1"
    by (simp add: List.map_filter_def)
  with x(2) have "executions = [\<lparr>ID = ''1700000000'', Name = [], Time = Unix 1700000000 0\<rparr>]"
    by (cases executions) auto
  with x(1) show ?thesis by simp
qed

subsection \<open>The summary of an execution\<close>

text \<open>
  The first loop: the keys of the merged map are the resource names of the decoded
  documents, and each row is made from a document of its resource name whose
  \<^verbatim>\<open>EventTime\<close> is maximal.
\<close>

lemma mergeSummary_Some_iff:
  "(\<exists>row. mergeSummary items summary k = Some row) \<longleftrightarrow>
     (\<exists>row. summary k = Some row) \<or>
     (\<exists>d. Some d \<in> set items \<and> Summary.ResourceName d = k)"
proof (induction items arbitrary: summary)
  case Nil
  then show ?case by simp
next
  case (Cons item items)
  show ?case
  proof (cases item)
    case None
    then show ?thesis by (simp add: Cons.IH)
  next
    case (Some d)
    then show ?thesis
      by (cases "summary (Summary.ResourceName d)") (simp_all add: Cons.IH, blast+)
  qed
qed

lemma EventTime_newSummaryRow:
  "CollectorsSummary.EventTime (newSummaryRow d) = Summary.EventTime d"
  by (simp add: newSummaryRow_def)

lemma mergeSummary_latest:
  "mergeSummary items summary k = Some row \<Longrightarrow>
     (summary k = Some row \<and>
        (\<forall>d. Some d \<in> set items \<and> Summary.ResourceName d = k \<longrightarrow>
           Summary.EventTime d < CollectorsSummary.EventTime row)) \<or>
     (\<exists>d. Some d \<in> set items \<and> Summary.ResourceName d = k \<and> row = newSummaryRow d \<and>
        (\<forall>d'. Some d' \<in> set items \<and> Summary.ResourceName d' = k \<longrightarrow>
           Summary.EventTime d' \<le> Summary.EventTime d) \<and>
        (\<forall>v. summary k = Some v \<longrightarrow> CollectorsSummary.EventTime v \<le> Summary.EventTime d))"
  (is "_ \<Longrightarrow> ?P items summary")
proof (induction items arbitrary: summary)
  case Nil
  then show ?case by simp
next
  case (Cons item items)
  show ?case
  proof (cases item)
    case None
    then show ?thesis using Cons.IH [of summary] Cons.prems by auto
  next
    case item: (Some d)
    let ?n = "Summary.ResourceName d"
    let ?s' = "summary(?n \<mapsto> newSummaryRow d)"
    show ?thesis
    proof (cases "\<exists>val. summary ?n = Some val \<and> Summary.EventTime d < CollectorsSummary.EventTime val")
      case True
      then obtain val where val: "summary ?n = Some val"
        "Summary.EventTime d < CollectorsSummary.EventTime val" by blast
      with item Cons.prems have "mergeSummary items summary k = Some row" by simp
      from Cons.IH [OF this] show ?thesis
      proof
        assume a: "summary k = Some row \<and>
          (\<forall>d. Some d \<in> set items \<and> Summary.ResourceName d = k \<longrightarrow>
             Summary.EventTime d < CollectorsSummary.EventTime row)"
        then show ?thesis using val item by auto
      next
        assume "\<exists>d. Some d \<in> set items \<and> Summary.ResourceName d = k \<and> row = newSummaryRow d \<and>
          (\<forall>d'. Some d' \<in> set items \<and> Summary.ResourceName d' = k \<longrightarrow>
             Summary.EventTime d' \<le> Summary.EventTime d) \<and>
          (\<forall>v. summary k = Some v \<longrightarrow> CollectorsSummary.EventTime v \<le> Summary.EventTime d)"
        then obtain d0 where d0: "Some d0 \<in> set items" "Summary.ResourceName d0 = k"
          "row = newSummaryRow d0"
          "\<forall>d'. Some d' \<in> set items \<and> Summary.ResourceName d' = k \<longrightarrow>
             Summary.EventTime d' \<le> Summary.EventTime d0"
          "\<forall>v. summary k = Some v \<longrightarrow> CollectorsSummary.EventTime v \<le> Summary.EventTime d0"
          by blast
        have "\<forall>d'. Some d' \<in> set (item # items) \<and> Summary.ResourceName d' = k \<longrightarrow>
             Summary.EventTime d' \<le> Summary.EventTime d0"
          using d0(4,5) val item by fastforce
        with d0 show ?thesis by auto
      qed
    next
      case False
      with item Cons.prems have m: "mergeSummary items ?s' k = Some row"
        by (auto split: option.splits)
      have le: "\<forall>v. summary ?n = Some v \<longrightarrow> CollectorsSummary.EventTime v \<le> Summary.EventTime d"
        using False by force
      from Cons.IH [OF m] show ?thesis
      proof
        assume a: "?s' k = Some row \<and>
          (\<forall>d. Some d \<in> set items \<and> Summary.ResourceName d = k \<longrightarrow>
             Summary.EventTime d < CollectorsSummary.EventTime row)"
        show ?thesis
        proof (cases "k = ?n")
          case True
          with a have "row = newSummaryRow d" by simp
          with a True le item show ?thesis
            by (intro disjI2 exI [of _ d]) (auto simp: EventTime_newSummaryRow less_imp_le)
        next
          case False
          with a item show ?thesis by auto
        qed
      next
        assume "\<exists>d. Some d \<in> set items \<and> Summary.ResourceName d = k \<and> row = newSummaryRow d \<and>
          (\<forall>d'. Some d' \<in> set items \<and> Summary.ResourceName d' = k \<longrightarrow>
             Summary.EventTime d' \<le> Summary.EventTime d) \<and>
          (\<forall>v. ?s' k = Some v \<longrightarrow> CollectorsSummary.EventTime v \<le> Summary.EventTime d)"
        then obtain d0 where d0: "Some d0 \<in> set items" "Summary.ResourceName d0 = k"
          "row = newSummaryRow d0"
          "\<forall>d'. Some d' \<in> set items \<and> Summary.ResourceName d' = k \<longrightarrow>
             Summary.EventTime d' \<le> Summary.EventTime d0"
          "\<forall>v. ?s' k = Some v \<longrightarrow> CollectorsSummary.EventTime v \<le> Summary.EventTime d0"
          by blast
        show ?thesis
        proof (cases "k = ?n")
          case True
          with d0(5) have "Summary.EventTime d \<le> Summary.EventTime d0"
            by (simp add: EventTime_newSummaryRow)
          have all: "\<forall>d'. Some d' \<in> set (item # items) \<and> Summary.ResourceName d' = k \<longrightarrow>
             Summary.EventTime d' \<le> Summary.EventTime d0"
            using d0(4) item \<open>Summary.EventTime d \<le> Summary.EventTime d0\<close> by auto
          have inc: "\<forall>v. summary k = Some v \<longrightarrow>
             CollectorsSummary.EventTime v \<le> Summary.EventTime d0"
            using le True \<open>Summary.EventTime d \<le> Summary.EventTime d0\<close> by fastforce
          from d0(1,2,3) all inc show ?thesis
            by (intro disjI2 exI [of _ d0]) simp
        next
          case False
          with d0 item show ?thesis
            by (intro disjI2 exI [of _ d0]) auto
        qed
      qed
    qed
  qed
qed

text \<open>
  The second loop keeps the status fields of every row, and a cost query can only panic by
  reading through a \<^verbatim>\<open>nil\<close> result.
\<close>

lemma getResourceSummaryDetails_panic:
  "getResourceSummaryDetails sm executionID filters = Inl p \<Longrightarrow> p = NilPointerDereference"
  by (auto simp: getResourceSummaryDetails_def Let_def split: prod.splits option.splits)

lemma summaryDetails_keeps_status:
  "summaryDetails sm executionID keys summary filters = Inr (summary', filters') \<Longrightarrow>
   summary k = Some row \<Longrightarrow>
   \<exists>row'. summary' k = Some row' \<and>
     CollectorsSummary.ResourceName row' = CollectorsSummary.ResourceName row \<and>
     CollectorsSummary.EventTime row' = CollectorsSummary.EventTime row \<and>
     CollectorsSummary.Status row' = CollectorsSummary.Status row \<and>
     CollectorsSummary.ErrorMessage row' = CollectorsSummary.ErrorMessage row"
proof (induction keys arbitrary: summary filters row)
  case Nil
  then show ?case by simp
next
  case (Cons resourceName rest)
  show ?case
  proof (cases "summary resourceName")
    case None
    with Cons.prems Cons.IH [of summary filters row] show ?thesis by simp
  next
    case (Some resourceData)
    with Cons.prems obtain f where f: "filters = Some f"
      by (cases filters) auto
    let ?f' = "f(''ResourceName'' \<mapsto> resourceName)"
    from Cons.prems Some f obtain totalSpent resourceCount err where
      d: "getResourceSummaryDetails sm executionID ?f' = Inr (totalSpent, resourceCount, err)"
      by (cases "getResourceSummaryDetails sm executionID ?f'") (auto simp: Let_def)
    show ?thesis
    proof (cases err)
      case (Some e)
      with Cons.prems \<open>summary resourceName = Some resourceData\<close> f d
      have "summaryDetails sm executionID rest summary (Some ?f') = Inr (summary', filters')"
        by (simp add: Let_def)
      from Cons.IH [OF this Cons.prems(2)] show ?thesis .
    next
      case None
      let ?s = "summary(resourceName \<mapsto>
                  resourceData\<lparr>TotalSpent := totalSpent, ResourceCount := resourceCount\<rparr>)"
      from None Cons.prems \<open>summary resourceName = Some resourceData\<close> f d
      have r: "summaryDetails sm executionID rest ?s (Some ?f') = Inr (summary', filters')"
        by (simp add: Let_def)
      show ?thesis
      proof (cases "k = resourceName")
        case True
        with Cons.prems(2) \<open>summary resourceName = Some resourceData\<close>
        have "?s k = Some (row\<lparr>TotalSpent := totalSpent, ResourceCount := resourceCount\<rparr>)"
          by simp
        from Cons.IH [OF r this] show ?thesis by simp
      next
        case False
        with Cons.prems(2) have "?s k = Some row" by simp
        from Cons.IH [OF r this] show ?thesis .
      qed
    qed
  qed
qed

text \<open>
  What the second loop returns when it visits each of the given keys of the map once:
  it panics when the cost query of one of the keys comes back with a \<^verbatim>\<open>nil\<close>
  result, and else every visited row is the row \<open>withDetails\<close> makes of it and the
  filters hold the last key visited. The filters \<open>g\<close> the loop starts from may differ from
  \<open>f\<close> at \<^verbatim>\<open>ResourceName\<close> only.
\<close>

lemma summaryDetails_eq:
  assumes "distinct keys" and "set keys \<subseteq> dom summary"
    and "\<forall>k. g(''ResourceName'' \<mapsto> k) = f(''ResourceName'' \<mapsto> k)"
  shows "summaryDetails sm executionID keys summary (Some g) =
    (if \<exists>k\<in>set keys. getResourceSummaryDetails sm executionID (f(''ResourceName'' \<mapsto> k)) =
          Inl NilPointerDereference
     then Inl NilPointerDereference
     else Inr (\<lambda>k. if k \<in> set keys
                      then map_option (withDetails sm executionID f k) (summary k)
                      else summary k,
               Some (if keys = [] then g else f(''ResourceName'' \<mapsto> last keys))))"
  using assms
proof (induction keys arbitrary: summary g)
  case Nil
  then show ?case by simp
next
  case (Cons k0 rest)
  let ?f' = "f(''ResourceName'' \<mapsto> k0)"
  from Cons.prems obtain row where row: "summary k0 = Some row" by auto
  from Cons.prems have g: "g(''ResourceName'' \<mapsto> k0) = ?f'" by blast
  have inv: "\<forall>k. ?f'(''ResourceName'' \<mapsto> k) = f(''ResourceName'' \<mapsto> k)" by simp
  from Cons.prems have d: "distinct rest" "k0 \<notin> set rest" by auto
  show ?case
  proof (cases "getResourceSummaryDetails sm executionID ?f'")
    case (Inl p)
    then have p: "p = NilPointerDereference" by (rule getResourceSummaryDetails_panic)
    have C: "\<exists>k\<in>set (k0 # rest).
        getResourceSummaryDetails sm executionID (f(''ResourceName'' \<mapsto> k)) =
          Inl NilPointerDereference"
      using Inl p by (intro bexI [of _ k0]) simp_all
    have L: "summaryDetails sm executionID (k0 # rest) summary (Some g) = Inl NilPointerDereference"
      using Inl p row g by simp
    show ?thesis
      unfolding L using C by (simp only: if_True)
  next
    case (Inr res)
    obtain totalSpent resourceCount err where res: "res = (totalSpent, resourceCount, err)"
      by (cases res) auto
    have cond: "(\<exists>k\<in>set (k0 # rest).
          getResourceSummaryDetails sm executionID (f(''ResourceName'' \<mapsto> k)) =
            Inl NilPointerDereference) \<longleftrightarrow>
        (\<exists>k\<in>set rest.
          getResourceSummaryDetails sm executionID (f(''ResourceName'' \<mapsto> k)) =
            Inl NilPointerDereference)"
      using Inr by simp
    have lastf: "(if k0 # rest = [] then g else f(''ResourceName'' \<mapsto> last (k0 # rest))) =
        (if rest = [] then ?f' else f(''ResourceName'' \<mapsto> last rest))"
      by simp
    show ?thesis
    proof (cases err)
      case (Some e)
      have sub: "set rest \<subseteq> dom summary" using Cons.prems by auto
      have wd: "withDetails sm executionID f k0 row = row"
        using Inr res Some by (simp add: withDetails_def)
      have step: "summaryDetails sm executionID (k0 # rest) summary (Some g) =
          summaryDetails sm executionID rest summary (Some ?f')"
        using Inr res Some row g by simp
      have maps: "(\<lambda>k. if k \<in> set (k0 # rest)
                       then map_option (withDetails sm executionID f k) (summary k)
                       else summary k) =
          (\<lambda>k. if k \<in> set rest
                then map_option (withDetails sm executionID f k) (summary k)
                else summary k)"
        using row wd by (auto simp: fun_eq_iff)
      show ?thesis
        by (simp only: step Cons.IH [OF d(1) sub inv] cond maps lastf)
    next
      case None
      let ?s = "summary(k0 \<mapsto> row\<lparr>TotalSpent := totalSpent, ResourceCount := resourceCount\<rparr>)"
      have sub: "set rest \<subseteq> dom ?s" using Cons.prems by auto
      have wd: "withDetails sm executionID f k0 row =
          row\<lparr>TotalSpent := totalSpent, ResourceCount := resourceCount\<rparr>"
        using Inr res None by (simp add: withDetails_def)
      have step: "summaryDetails sm executionID (k0 # rest) summary (Some g) =
          summaryDetails sm executionID rest ?s (Some ?f')"
        using Inr res None row g by simp
      have maps: "(\<lambda>k. if k \<in> set rest
                       then map_option (withDetails sm executionID f k) (?s k)
                       else ?s k) =
          (\<lambda>k. if k \<in> set (k0 # rest)
                then map_option (withDetails sm executionID f k) (summary k)
                else summary k)"
        using row wd d(2) by (auto simp: fun_eq_iff)
      show ?thesis
        by (simp only: step Cons.IH [OF d(1) sub inv] cond maps lastf)
    qed
  qed
qed

lemma GetSummary_eq:
  assumes "client sm (SummaryQuery executionID) = (Some r, None)"
    and "rangeOrder keys (mergeSummary (Each r) Map.empty :: string \<Rightarrow> 'f::zero CollectorsSummary option)"
  shows "GetSummary sm keys executionID (Some f) =
    (if \<exists>k\<in>set keys. getResourceSummaryDetails sm executionID (f(''ResourceName'' \<mapsto> k)) =
          Inl NilPointerDereference
     then Inl NilPointerDereference
     else Inr (\<lambda>k. map_option (withDetails sm executionID f k)
                      ((mergeSummary (Each r) Map.empty :: string \<Rightarrow> 'f CollectorsSummary option) k),
               None,
               Some (if keys = [] then f else f(''ResourceName'' \<mapsto> last keys))))"
proof -
  let ?m = "mergeSummary (Each r) Map.empty :: string \<Rightarrow> 'f CollectorsSummary option"
  from assms(2) have d: "distinct keys" and s: "set keys = dom ?m"
    by (simp_all add: rangeOrder_def)
  have sub: "set keys \<subseteq> dom ?m" using s by simp
  have maps: "(\<lambda>k. if k \<in> set keys
                   then map_option (withDetails sm executionID f k) (?m k)
                   else ?m k) =
      (\<lambda>k. map_option (withDetails sm executionID f k) (?m k))"
    using s by (auto simp: fun_eq_iff dom_def)
  have sd: "summaryDetails sm executionID keys ?m (Some f) =
    (if \<exists>k\<in>set keys. getResourceSummaryDetails sm executionID (f(''ResourceName'' \<mapsto> k)) =
          Inl NilPointerDereference
     then Inl NilPointerDereference
     else Inr (\<lambda>k. map_option (withDetails sm executionID f k) (?m k),
               Some (if keys = [] then f else f(''ResourceName'' \<mapsto> last keys))))"
    using summaryDetails_eq [OF d sub, of f f sm executionID] by (simp only: maps) simp
  show ?thesis
    using assms(1) by (simp add: GetSummary_def sd)
qed

lemma GetSummary_nil_filters:
  assumes "client sm (SummaryQuery executionID) = (Some r, None)"
    and "rangeOrder keys (mergeSummary (Each r) Map.empty :: string \<Rightarrow> 'f::zero CollectorsSummary option)"
  shows "GetSummary sm keys executionID None =
    (if keys = [] then Inr (mergeSummary (Each r) Map.empty :: string \<Rightarrow> 'f CollectorsSummary option, None, None)
     else Inl NilMapAssignment)"
proof (cases keys)
  case Nil
  with assms(1) show ?thesis by (simp add: GetSummary_def)
next
  case (Cons k rest)
  with assms(2) obtain row where "(mergeSummary (Each r) Map.empty :: string \<Rightarrow> 'f CollectorsSummary option) k = Some row"
    by (auto simp: rangeOrder_def)
  with assms(1) Cons show ?thesis by (simp add: GetSummary_def)
qed

lemma GetSummary_query_error:
  "client sm (SummaryQuery executionID) = (searchResult, Some err) \<Longrightarrow>
   GetSummary sm keys executionID filters = Inr (Map.empty, Some err, filters)"
  by (simp add: GetSummary_def)

lemma GetSummary_error_is_query_error:
  "GetSummary sm keys executionID filters = Inr (summary, Some err, filters') \<Longrightarrow>
   \<exists>searchResult. client sm (SummaryQuery executionID) = (searchResult, Some err)"
  by (auto simp: GetSummary_def Let_def split: prod.splits option.splits sum.splits)

lemma getResourceSummaryDetails_Inr:
  "client sm (SummaryDetailsQuery flt executionID) = (Some r, err) \<Longrightarrow>
   getResourceSummaryDetails sm executionID flt =
     (case err of
        Some e \<Rightarrow> Inr (0, 0, Some e)
      | None \<Rightarrow>
          (case Terms_sum r of
             None \<Rightarrow> Inr (0, 0, None)
           | Some resp \<Rightarrow>
               (case resp ''value'' of
                  None \<Rightarrow> Inr (0, 0, None)
                | Some val \<Rightarrow> Inr (val, TotalHits r, None))))"
  by (simp add: getResourceSummaryDetails_def split: option.splits)

lemma getResourceSummaryDetails_Inl:
  "client sm (SummaryDetailsQuery flt executionID) = (None, err) \<Longrightarrow>
   getResourceSummaryDetails sm executionID flt = Inl NilPointerDereference"
  by (simp add: getResourceSummaryDetails_def split: option.splits)

lemma summaryDetails_returns:
  assumes "\<forall>flt. fst (client sm (SummaryDetailsQuery flt executionID)) \<noteq> None"
  shows "\<exists>summary' filters'.
    summaryDetails sm executionID keys summary (Some g) = Inr (summary', filters')"
proof (induction keys arbitrary: summary g)
  case Nil
  then show ?case by simp
next
  case (Cons k0 rest)
  let ?g' = "g(''ResourceName'' \<mapsto> k0)"
  obtain r err where c: "client sm (SummaryDetailsQuery ?g' executionID) = (Some r, err)"
    using assms [rule_format, of ?g'] by (cases "client sm (SummaryDetailsQuery ?g' executionID)") auto
  then have "\<exists>t c e. getResourceSummaryDetails sm executionID ?g' = Inr (t, c, e)"
    by (simp add: getResourceSummaryDetails_Inr split: option.splits)
  then obtain t c e where d: "getResourceSummaryDetails sm executionID ?g' = Inr (t, c, e)"
    by blast
  show ?case
  proof (cases "summary k0")
    case None
    then show ?thesis using Cons.IH [of summary g] by simp
  next
    case (Some row)
    show ?thesis
    proof (cases e)
      case None
      with Some d have step: "summaryDetails sm executionID (k0 # rest) summary (Some g) =
          summaryDetails sm executionID rest
            (summary(k0 \<mapsto> row\<lparr>TotalSpent := t, ResourceCount := c\<rparr>)) (Some ?g')"
        by simp
      show ?thesis unfolding step by (rule Cons.IH)
    next
      case (Some e')
      with \<open>summary k0 = Some row\<close> d
      have step: "summaryDetails sm executionID (k0 # rest) summary (Some g) =
          summaryDetails sm executionID rest summary (Some ?g')"
        by simp
      show ?thesis unfolding step by (rule Cons.IH)
    qed
  qed
qed

lemma mergeSummary_append:
  "mergeSummary (xs @ ys) summary = mergeSummary ys (mergeSummary xs summary)"
  by (induction xs arbitrary: summary) (auto split: option.splits)

lemma mergeSummary_empty_zero:
  assumes "mergeSummary items Map.empty k = Some row"
  shows "TotalSpent row = 0 \<and> ResourceCount row = 0"
  using mergeSummary_latest [OF assms] by (auto simp: newSummaryRow_def)

lemma GetSummary_returns:
  assumes "client sm (SummaryQuery executionID) = (Some r, None)"
    and "\<forall>flt. fst (client sm (SummaryDetailsQuery flt executionID)) \<noteq> None"
  shows "\<exists>summary filters'.
           GetSummary sm keys executionID (Some f) = Inr (summary, None, filters')"
proof -
  from summaryDetails_returns [OF assms(2), of keys "mergeSummary (Each r) Map.empty" f]
  obtain summary' filters' where
    "summaryDetails sm executionID keys (mergeSummary (Each r) Map.empty) (Some f) =
       Inr (summary', filters')" by blast
  with assms(1) show ?thesis
    by (simp add: GetSummary_def)
qed

text \<open>
  Claim C1. Let the store answer the status query of an execution with documents. For
  every document \<open>d\<close> among them, the summary that \<^verbatim>\<open>GetSummary\<close> returns has a
  row for the resource name of \<open>d\<close>, and the row carries the \<^verbatim>\<open>EventTime\<close>,
  \<^verbatim>\<open>Status\<close> and \<^verbatim>\<open>ErrorMessage\<close> of a document \<open>d'\<close> of that resource
  name whose \<^verbatim>\<open>EventTime\<close> is maximal among the documents of that resource name.
  The call does return, with a \<^verbatim>\<open>nil\<close> error, when \<^verbatim>\<open>filters\<close> is not
  \<^verbatim>\<open>nil\<close> and every cost query is answered with a result. The witness is the
  claim's example: of three documents with the times 10, 30 and 20 the row has the status
  of the document of time 30.
\<close>

theorem GetSummary_keeps_latest_status:
  assumes "client sm (SummaryQuery executionID) = (Some r, None)"
  shows "(\<forall>summary err filters' d.
            GetSummary sm keys executionID filters = Inr (summary, err, filters') \<and>
            Some d \<in> set (Each r) \<longrightarrow>
            (\<exists>row d'. summary (Summary.ResourceName d) = Some row \<and>
               Some d' \<in> set (Each r) \<and>
               Summary.ResourceName d' = Summary.ResourceName d \<and>
               (\<forall>d''. Some d'' \<in> set (Each r) \<and>
                      Summary.ResourceName d'' = Summary.ResourceName d \<longrightarrow>
                      Summary.EventTime d'' \<le> Summary.EventTime d') \<and>
               CollectorsSummary.EventTime row = Summary.EventTime d' \<and>
               CollectorsSummary.Status row = SummaryData.Status (Data d') \<and>
               CollectorsSummary.ErrorMessage row = SummaryData.ErrorMessage (Data d'))) \<and>
         ((\<exists>f. filters = Some f) \<and>
          (\<forall>flt. fst (client sm (SummaryDetailsQuery flt executionID)) \<noteq> None) \<longrightarrow>
            (\<exists>summary filters'.
               GetSummary sm keys executionID filters = Inr (summary, None, filters')))"
proof (intro conjI allI impI)
  fix summary :: "string \<Rightarrow> 'a CollectorsSummary option" and err filters' d
  assume a: "GetSummary sm keys executionID filters = Inr (summary, err, filters') \<and>
            Some d \<in> set (Each r)"
  let ?k = "Summary.ResourceName d"
  let ?m = "mergeSummary (Each r) Map.empty :: string \<Rightarrow> 'a CollectorsSummary option"
  from assms a have sd: "summaryDetails sm executionID keys ?m filters = Inr (summary, filters')"
    by (auto simp: GetSummary_def split: sum.splits prod.splits)
  from a obtain row0 where row0: "?m ?k = Some row0"
    using mergeSummary_Some_iff [of "Each r" Map.empty ?k] by blast
  from mergeSummary_latest [OF row0] obtain d' where d': "Some d' \<in> set (Each r)"
    "Summary.ResourceName d' = ?k" "row0 = newSummaryRow d'"
    "\<forall>d''. Some d'' \<in> set (Each r) \<and> Summary.ResourceName d'' = ?k \<longrightarrow>
       Summary.EventTime d'' \<le> Summary.EventTime d'"
    by auto
  from summaryDetails_keeps_status [OF sd row0] obtain row where row: "summary ?k = Some row"
    "CollectorsSummary.EventTime row = CollectorsSummary.EventTime row0"
    "CollectorsSummary.Status row = CollectorsSummary.Status row0"
    "CollectorsSummary.ErrorMessage row = CollectorsSummary.ErrorMessage row0"
    by blast
  from row d' show "\<exists>row d'. summary ?k = Some row \<and>
               Some d' \<in> set (Each r) \<and>
               Summary.ResourceName d' = ?k \<and>
               (\<forall>d''. Some d'' \<in> set (Each r) \<and>
                      Summary.ResourceName d'' = ?k \<longrightarrow>
                      Summary.EventTime d'' \<le> Summary.EventTime d') \<and>
               CollectorsSummary.EventTime row = Summary.EventTime d' \<and>
               CollectorsSummary.Status row = SummaryData.Status (Data d') \<and>
               CollectorsSummary.ErrorMessage row = SummaryData.ErrorMessage (Data d')"
    by (intro exI [of _ row] exI [of _ d']) (simp add: newSummaryRow_def)
next
  assume b: "(\<exists>f. filters = Some f) \<and>
          (\<forall>flt. fst (client sm (SummaryDetailsQuery flt executionID)) \<noteq> None)"
  then obtain f where f: "filters = Some f" by blast
  from b have all: "\<forall>flt. fst (client sm (SummaryDetailsQuery flt executionID)) \<noteq> None"
    by blast
  from summaryDetails_returns [OF all, of keys "mergeSummary (Each r) Map.empty" f]
  obtain summary' filters' where
    "summaryDetails sm executionID keys (mergeSummary (Each r) Map.empty) (Some f) =
       Inr (summary', filters')" by blast
  with assms f show "\<exists>summary filters'.
               GetSummary sm keys executionID filters = Inr (summary, None, filters')"
    by (simp add: GetSummary_def)
qed

text \<open>
  Claim C8, as amended. When the merge has a row \<open>val\<close> for the resource name of a newly
  decoded document \<open>d\<close>, the row is kept only if its \<^verbatim>\<open>EventTime\<close> is strictly
  greater than that of \<open>d\<close>; when the times are equal, or the time of \<open>d\<close> is
  greater, the row is replaced by the row of \<open>d\<close> (line 165 compares with
  \<^verbatim>\<open><\<close>). The rows of the other resource names are unchanged. So when
  \<open>d\<close> is the last document of the answer of the store and \<open>incumbent\<close> is the row
  the documents before it give its resource name, the row that \<^verbatim>\<open>GetSummary\<close>
  returns carries the time, status and error message of \<open>d\<close> unless the time of
  \<open>incumbent\<close> is strictly greater.
\<close>

theorem mergeSummary_replaces_unless_incumbent_newer:
  "(mergeSummary items summary (Summary.ResourceName d) = Some val \<longrightarrow>
      mergeSummary (items @ [Some d]) summary (Summary.ResourceName d) =
        (if Summary.EventTime d < CollectorsSummary.EventTime val then Some val
         else Some (newSummaryRow d)) \<and>
      (\<forall>k. k \<noteq> Summary.ResourceName d \<longrightarrow>
         mergeSummary (items @ [Some d]) summary k = mergeSummary items summary k)) \<and>
   (client (sm :: ('f::zero, 'd) StorageManager) (SummaryQuery executionID) = (Some r, None) \<and>
    Each r = docs @ [Some d] \<and>
    mergeSummary docs Map.empty (Summary.ResourceName d) = Some (incumbent :: 'f CollectorsSummary) \<and>
    GetSummary sm keys executionID filters = Inr (result, err, filters') \<longrightarrow>
      (\<exists>row. result (Summary.ResourceName d) = Some row \<and>
         CollectorsSummary.EventTime row =
           (if Summary.EventTime d < CollectorsSummary.EventTime incumbent
            then CollectorsSummary.EventTime incumbent else Summary.EventTime d) \<and>
         CollectorsSummary.Status row =
           (if Summary.EventTime d < CollectorsSummary.EventTime incumbent
            then CollectorsSummary.Status incumbent else SummaryData.Status (Data d)) \<and>
         CollectorsSummary.ErrorMessage row =
           (if Summary.EventTime d < CollectorsSummary.EventTime incumbent
            then CollectorsSummary.ErrorMessage incumbent
            else SummaryData.ErrorMessage (Data d))))"
proof (intro conjI impI)
  assume "mergeSummary items summary (Summary.ResourceName d) = Some val"
  then show "mergeSummary (items @ [Some d]) summary (Summary.ResourceName d) =
        (if Summary.EventTime d < CollectorsSummary.EventTime val then Some val
         else Some (newSummaryRow d))"
    by (simp add: mergeSummary_append)
next
  assume "mergeSummary items summary (Summary.ResourceName d) = Some val"
  then show "\<forall>k. k \<noteq> Summary.ResourceName d \<longrightarrow>
         mergeSummary (items @ [Some d]) summary k = mergeSummary items summary k"
    by (simp add: mergeSummary_append)
next
  let ?k = "Summary.ResourceName d"
  assume a: "client sm (SummaryQuery executionID) = (Some r, None) \<and>
    Each r = docs @ [Some d] \<and>
    mergeSummary docs Map.empty ?k = Some incumbent \<and>
    GetSummary sm keys executionID filters = Inr (result, err, filters')"
  then have sd: "summaryDetails sm executionID keys (mergeSummary (docs @ [Some d]) Map.empty) filters =
      Inr (result, filters')"
    by (auto simp: GetSummary_def split: sum.splits prod.splits)
  let ?row0 = "if Summary.EventTime d < CollectorsSummary.EventTime incumbent then incumbent
      else newSummaryRow d"
  from a have m: "mergeSummary (docs @ [Some d]) Map.empty ?k = Some ?row0"
    by (simp add: mergeSummary_append)
  from summaryDetails_keeps_status [OF sd m] obtain row where row: "result ?k = Some row"
    "CollectorsSummary.EventTime row = CollectorsSummary.EventTime ?row0"
    "CollectorsSummary.Status row = CollectorsSummary.Status ?row0"
    "CollectorsSummary.ErrorMessage row = CollectorsSummary.ErrorMessage ?row0"
    by blast
  then show "\<exists>row. result ?k = Some row \<and>
         CollectorsSummary.EventTime row =
           (if Summary.EventTime d < CollectorsSummary.EventTime incumbent
            then CollectorsSummary.EventTime incumbent else Summary.EventTime d) \<and>
         CollectorsSummary.Status row =
           (if Summary.EventTime d < CollectorsSummary.EventTime incumbent
            then CollectorsSummary.Status incumbent else SummaryData.Status (Data d)) \<and>
         CollectorsSummary.ErrorMessage row =
           (if Summary.EventTime d < CollectorsSummary.EventTime incumbent
            then CollectorsSummary.ErrorMessage incumbent
            else SummaryData.ErrorMessage (Data d))"
    by (intro exI [of _ row]) (simp add: newSummaryRow_def)
qed

text \<open>
  Claim C3 says that a cost query failing for one resource name leaves that row at cost 0
  and count 0 and the call succeeds. In the error branch of
  \<^verbatim>\<open>getResourceSummaryDetails\<close> the log statement reads
  \<^verbatim>\<open>searchResult.TookInMillis\<close> (line 216) before the return of line 219. When
  the cost query of one visited resource name returns its error with a \<^verbatim>\<open>nil\<close>
  result, as \<^verbatim>\<open>Do\<close> of the Elasticsearch client does, \<^verbatim>\<open>GetSummary\<close>
  panics, whatever the other cost queries return and in whatever order the range loop
  visits the names. (When the failing answer carries a result, the row stays at zero and
  the call succeeds: lemma \<open>GetSummary_degrades_when_result_present\<close> with
  \<open>withDetails_error\<close>.)
\<close>

theorem GetSummary_nil_result_panics:
  assumes "client sm (SummaryQuery executionID) = (Some r, None)"
    and "rangeOrder keys (mergeSummary (Each r) Map.empty :: string \<Rightarrow> 'f::zero CollectorsSummary option)"
    and "k \<in> set keys"
    and "client sm (SummaryDetailsQuery (f(''ResourceName'' \<mapsto> k)) executionID) = (None, Some err)"
  shows "GetSummary (sm :: ('f, 'd) StorageManager) keys executionID (Some f) =
           Inl NilPointerDereference"
proof -
  have "getResourceSummaryDetails sm executionID (f(''ResourceName'' \<mapsto> k)) =
      Inl NilPointerDereference"
    using assms(4) by (rule getResourceSummaryDetails_Inl)
  with assms(3) have "\<exists>k\<in>set keys.
      getResourceSummaryDetails sm executionID (f(''ResourceName'' \<mapsto> k)) =
        Inl NilPointerDereference" by blast
  then show ?thesis
    unfolding GetSummary_eq [OF assms(1,2)] by (simp only: if_True)
qed

lemma withDetails_cong:
  "g(''ResourceName'' \<mapsto> k) = f(''ResourceName'' \<mapsto> k) \<Longrightarrow>
   withDetails sm executionID g k = withDetails sm executionID f k"
  by (rule ext) (simp add: withDetails_def)

lemma withDetails_malformed:
  assumes "client sm (SummaryDetailsQuery (f(''ResourceName'' \<mapsto> k)) executionID) = (Some r', None)"
    and "Terms_sum r' = None \<or> (\<exists>resp. Terms_sum r' = Some resp \<and> resp ''value'' = None)"
  shows "withDetails sm executionID f k row = row\<lparr>TotalSpent := 0, ResourceCount := 0\<rparr>"
  using assms(2) by (auto simp: withDetails_def getResourceSummaryDetails_Inr [OF assms(1)])

lemma withDetails_error:
  assumes "client sm (SummaryDetailsQuery (f(''ResourceName'' \<mapsto> k)) executionID) = (Some r', Some e)"
  shows "withDetails sm executionID f k row = row"
  by (simp add: withDetails_def getResourceSummaryDetails_Inr [OF assms])

lemma withDetails_sum:
  assumes "client sm (SummaryDetailsQuery (f(''ResourceName'' \<mapsto> k)) executionID) = (Some r', None)"
    and "Terms_sum r' = Some resp" and "resp ''value'' = Some v"
  shows "withDetails sm executionID f k row = row\<lparr>TotalSpent := v, ResourceCount := TotalHits r'\<rparr>"
  using assms(2,3) by (simp add: withDetails_def getResourceSummaryDetails_Inr [OF assms(1)])

lemma no_nil_result_no_panic:
  assumes "\<forall>k\<in>set keys. fst (client sm (SummaryDetailsQuery (f(''ResourceName'' \<mapsto> k)) executionID)) \<noteq> None"
  shows "\<not> (\<exists>k\<in>set keys. getResourceSummaryDetails sm executionID (f(''ResourceName'' \<mapsto> k)) =
          Inl NilPointerDereference)"
proof
  assume "\<exists>k\<in>set keys. getResourceSummaryDetails sm executionID (f(''ResourceName'' \<mapsto> k)) =
          Inl NilPointerDereference"
  then obtain k where k: "k \<in> set keys"
    "getResourceSummaryDetails sm executionID (f(''ResourceName'' \<mapsto> k)) = Inl NilPointerDereference"
    by blast
  from assms k(1) obtain r' err where
    "client sm (SummaryDetailsQuery (f(''ResourceName'' \<mapsto> k)) executionID) = (Some r', err)"
    by (cases "client sm (SummaryDetailsQuery (f(''ResourceName'' \<mapsto> k)) executionID)") auto
  from getResourceSummaryDetails_Inr [OF this] k(2) show False
    by (auto split: option.splits)
qed

lemma GetSummary_degrades_when_result_present:
  assumes "client sm (SummaryQuery executionID) = (Some r, None)"
    and "rangeOrder keys (mergeSummary (Each r) Map.empty :: string \<Rightarrow> 'f::zero CollectorsSummary option)"
    and "\<forall>k\<in>set keys.
       fst (client sm (SummaryDetailsQuery (f(''ResourceName'' \<mapsto> k)) executionID)) \<noteq> None"
  shows "GetSummary (sm :: ('f, 'd) StorageManager) keys executionID (Some f) =
           Inr (\<lambda>k. map_option (withDetails sm executionID f k)
                      ((mergeSummary (Each r) Map.empty :: string \<Rightarrow> 'f CollectorsSummary option) k),
                None,
                Some (if keys = [] then f else f(''ResourceName'' \<mapsto> last keys)))"
  unfolding GetSummary_eq [OF assms(1,2)] using no_nil_result_no_panic [OF assms(3)]
  by (simp only: if_False)

text \<open>
  Claim C2, as amended. \<^verbatim>\<open>GetSummary\<close> returns an error exactly when the
  status query fails: it then returns that error with an empty summary and leaves
  \<^verbatim>\<open>filters\<close> alone, and any error it returns is the error of the status query.
  Malformed aggregation data does not fail the call: when the status query succeeds and no
  cost query comes back with a \<^verbatim>\<open>nil\<close> result, the call returns a
  \<^verbatim>\<open>nil\<close> error, and every resource whose cost answer has no usable
  \<^verbatim>\<open>sum\<close> aggregation (\<^verbatim>\<open>Terms("sum")\<close> not ok, or no
  \<^verbatim>\<open>value\<close> in it) has a row with total spend 0 and resource count 0
  (lines 227--236).
\<close>

theorem GetSummary_fails_only_on_status_query:
  "(client sm (SummaryQuery executionID) = (searchResult, Some err) \<longrightarrow>
      GetSummary sm keys executionID filters = Inr (Map.empty, Some err, filters)) \<and>
   (\<forall>summary e filters'.
      GetSummary sm keys executionID filters = Inr (summary, Some e, filters') \<longrightarrow>
      (\<exists>res. client sm (SummaryQuery executionID) = (res, Some e)) \<and> summary = Map.empty) \<and>
   (client sm (SummaryQuery executionID) = (Some r, None) \<and>
    rangeOrder keys (mergeSummary (Each r) Map.empty :: string \<Rightarrow> 'f::zero CollectorsSummary option) \<and>
    (\<forall>k\<in>set keys.
       fst (client sm (SummaryDetailsQuery (f(''ResourceName'' \<mapsto> k)) executionID)) \<noteq> None) \<longrightarrow>
      (\<exists>summary filters'.
         GetSummary (sm :: ('f, 'd) StorageManager) keys executionID (Some f) =
           Inr (summary, None, filters') \<and>
         (\<forall>k r'. k \<in> set keys \<and>
            client sm (SummaryDetailsQuery (f(''ResourceName'' \<mapsto> k)) executionID) = (Some r', None) \<and>
            (Terms_sum r' = None \<or> (\<exists>resp. Terms_sum r' = Some resp \<and> resp ''value'' = None)) \<longrightarrow>
            (\<exists>row. summary k = Some row \<and> TotalSpent row = 0 \<and> ResourceCount row = 0))))"
proof (intro conjI allI impI)
  assume "client sm (SummaryQuery executionID) = (searchResult, Some err)"
  then show "GetSummary sm keys executionID filters = Inr (Map.empty, Some err, filters)"
    by (rule GetSummary_query_error)
next
  fix summary :: "string \<Rightarrow> 'f CollectorsSummary option" and e filters'
  assume a: "GetSummary sm keys executionID filters = Inr (summary, Some e, filters')"
  from GetSummary_error_is_query_error [OF a]
  show "\<exists>res. client sm (SummaryQuery executionID) = (res, Some e)" .
next
  fix summary :: "string \<Rightarrow> 'f CollectorsSummary option" and e filters'
  assume a: "GetSummary sm keys executionID filters = Inr (summary, Some e, filters')"
  from GetSummary_error_is_query_error [OF a] obtain res where
    "client sm (SummaryQuery executionID) = (res, Some e)" by blast
  from GetSummary_query_error [OF this, of keys filters] a show "summary = Map.empty"
    by simp
next
  let ?m = "mergeSummary (Each r) Map.empty :: string \<Rightarrow> 'f CollectorsSummary option"
  assume a: "client sm (SummaryQuery executionID) = (Some r, None) \<and>
    rangeOrder keys ?m \<and>
    (\<forall>k\<in>set keys.
       fst (client sm (SummaryDetailsQuery (f(''ResourceName'' \<mapsto> k)) executionID)) \<noteq> None)"
  then have q: "client sm (SummaryQuery executionID) = (Some r, None)"
    and ro: "rangeOrder keys ?m"
    and nn: "\<forall>k\<in>set keys.
       fst (client sm (SummaryDetailsQuery (f(''ResourceName'' \<mapsto> k)) executionID)) \<noteq> None"
    by blast+
  let ?s = "\<lambda>k. map_option (withDetails sm executionID f k) (?m k)"
  let ?f' = "Some (if keys = [] then f else f(''ResourceName'' \<mapsto> last keys))"
  have g: "GetSummary sm keys executionID (Some f) = Inr (?s, None, ?f')"
    unfolding GetSummary_eq [OF q ro] using no_nil_result_no_panic [OF nn]
    by (simp only: if_False)
  have "\<forall>k r'. k \<in> set keys \<and>
            client sm (SummaryDetailsQuery (f(''ResourceName'' \<mapsto> k)) executionID) = (Some r', None) \<and>
            (Terms_sum r' = None \<or> (\<exists>resp. Terms_sum r' = Some resp \<and> resp ''value'' = None)) \<longrightarrow>
            (\<exists>row. ?s k = Some row \<and> TotalSpent row = 0 \<and> ResourceCount row = 0)"
  proof (intro allI impI)
    fix k r'
    assume b: "k \<in> set keys \<and>
            client sm (SummaryDetailsQuery (f(''ResourceName'' \<mapsto> k)) executionID) = (Some r', None) \<and>
            (Terms_sum r' = None \<or> (\<exists>resp. Terms_sum r' = Some resp \<and> resp ''value'' = None))"
    with ro obtain row where row: "?m k = Some row"
      by (auto simp: rangeOrder_def)
    from b have "withDetails sm executionID f k row = row\<lparr>TotalSpent := 0, ResourceCount := 0\<rparr>"
      by (intro withDetails_malformed) blast+
    with row show "\<exists>row. ?s k = Some row \<and> TotalSpent row = 0 \<and> ResourceCount row = 0"
      by simp
  qed
  with g show "\<exists>summary filters'.
         GetSummary sm keys executionID (Some f) = Inr (summary, None, filters') \<and>
         (\<forall>k r'. k \<in> set keys \<and>
            client sm (SummaryDetailsQuery (f(''ResourceName'' \<mapsto> k)) executionID) = (Some r', None) \<and>
            (Terms_sum r' = None \<or> (\<exists>resp. Terms_sum r' = Some resp \<and> resp ''value'' = None)) \<longrightarrow>
            (\<exists>row. summary k = Some row \<and> TotalSpent row = 0 \<and> ResourceCount row = 0))"
    by blast
qed

lemma GetExecutions_depends_on_answer:
  "client sm (ExecutionsQuery queryLimit) = client sm' (ExecutionsQuery queryLimit) \<Longrightarrow>
   GetExecutions sm queryLimit = GetExecutions sm' queryLimit"
  by (simp add: GetExecutions_def)

lemma GetResources_depends_on_answer:
  "client sm (ResourcesQuery resourceType executionID) =
     client sm' (ResourcesQuery resourceType executionID) \<Longrightarrow>
   GetResources sm resourceType executionID = GetResources sm' resourceType executionID"
  by (simp add: GetResources_def)

lemma GetSummary_twice:
  assumes "client sm (SummaryQuery executionID) = (Some r, None)"
    and "rangeOrder keys1 (mergeSummary (Each r) Map.empty :: string \<Rightarrow> 'f::zero CollectorsSummary option)"
    and "rangeOrder keys2 (mergeSummary (Each r) Map.empty :: string \<Rightarrow> 'f::zero CollectorsSummary option)"
    and "GetSummary (sm :: ('f, 'd) StorageManager) keys1 executionID (Some f) =
           Inr (summary, err, filters1)"
  shows "filters1 = Some (if keys1 = [] then f else f(''ResourceName'' \<mapsto> last keys1)) \<and>
         (\<exists>filters2. GetSummary sm keys2 executionID filters1 = Inr (summary, err, filters2))"
proof -
  let ?m = "mergeSummary (Each r) Map.empty :: string \<Rightarrow> 'f CollectorsSummary option"
  let ?P = "\<lambda>keys f. \<exists>k\<in>set keys.
      getResourceSummaryDetails sm executionID (f(''ResourceName'' \<mapsto> k)) =
        Inl NilPointerDereference"
  let ?g = "if keys1 = [] then f else f(''ResourceName'' \<mapsto> last keys1)"
  have np: "\<not> ?P keys1 f"
    using assms(4) unfolding GetSummary_eq [OF assms(1,2)] by (auto split: if_splits)
  from assms(4) have res: "summary = (\<lambda>k. map_option (withDetails sm executionID f k) (?m k))"
    "err = None" "filters1 = Some ?g"
    unfolding GetSummary_eq [OF assms(1,2)] using np by (simp_all only: if_False sum.inject prod.inject)
  have upd: "?g(''ResourceName'' \<mapsto> k) = f(''ResourceName'' \<mapsto> k)" for k
    by simp
  from assms(2,3) have same: "set keys2 = set keys1"
    by (simp add: rangeOrder_def)
  have np2: "\<not> ?P keys2 ?g"
    using np same by (simp only: upd) simp
  have maps: "(\<lambda>k. map_option (withDetails sm executionID ?g k) (?m k)) =
      (\<lambda>k. map_option (withDetails sm executionID f k) (?m k))"
    by (simp only: withDetails_cong [OF upd])
  have "GetSummary sm keys2 executionID (Some ?g) =
      Inr (summary, err, Some (if keys2 = [] then ?g else ?g(''ResourceName'' \<mapsto> last keys2)))"
    unfolding GetSummary_eq [OF assms(1,3)] using np2 by (simp only: if_False maps res(1,2))
  with res(3) show ?thesis by blast
qed

text \<open>
  Claim C9, as amended. Two calls of \<^verbatim>\<open>GetSummary\<close> with the same arguments
  against the same store return the same summary and the same error, in whatever orders
  their range loops visit the summary, the second call being given the filters map as the
  first one left it; when the status query fails the call returns that error and leaves
  the filters alone. \<^verbatim>\<open>GetExecutions\<close> and \<^verbatim>\<open>GetResources\<close> take an
  integer and strings, which Go passes by value, and what they return depends on the
  answer of the store to their one query only, so an unchanged store gives the same
  result. \<^verbatim>\<open>GetSummary\<close> is not free of side effects: line 180 writes into the
  caller's \<^verbatim>\<open>filters\<close> map, which comes back with \<^verbatim>\<open>ResourceName\<close> set
  to the last resource name visited whenever the summary has a row.
\<close>

theorem GetSummary_same_result_but_writes_filters:
  "(client (sm :: ('f::zero, 'd) StorageManager) (SummaryQuery executionID) = (Some r, None) \<and>
    rangeOrder firstKeys (mergeSummary (Each r) Map.empty :: string \<Rightarrow> 'f CollectorsSummary option) \<and>
    rangeOrder secondKeys (mergeSummary (Each r) Map.empty :: string \<Rightarrow> 'f CollectorsSummary option) \<and>
    GetSummary sm firstKeys executionID (Some f) = Inr (summary, err, firstFilters) \<longrightarrow>
      firstFilters = Some (if firstKeys = [] then f else f(''ResourceName'' \<mapsto> last firstKeys)) \<and>
      (\<exists>secondFilters. GetSummary sm secondKeys executionID firstFilters = Inr (summary, err, secondFilters))) \<and>
   (client sm (SummaryQuery executionID) = (searchResult, Some queryError) \<longrightarrow>
      GetSummary sm keys executionID filters = Inr (Map.empty, Some queryError, filters)) \<and>
   (client sm (ExecutionsQuery queryLimit) = client sm' (ExecutionsQuery queryLimit) \<longrightarrow>
      GetExecutions sm queryLimit = GetExecutions sm' queryLimit) \<and>
   (client sm (ResourcesQuery resourceType executionID) =
      client sm' (ResourcesQuery resourceType executionID) \<longrightarrow>
      GetResources sm resourceType executionID = GetResources sm' resourceType executionID)"
  using GetSummary_twice [of sm executionID r firstKeys secondKeys f summary err firstFilters]
    GetSummary_query_error [of sm executionID searchResult queryError keys filters]
    GetExecutions_depends_on_answer [of sm queryLimit sm']
    GetResources_depends_on_answer [of sm resourceType executionID sm']
  by blast

lemma client_summaryStore [simp]:
  "client (summaryStore items details) (SummaryQuery executionID) =
     (Some (emptyResult\<lparr>Each := items\<rparr>), None)"
  "client (summaryStore items details) (SummaryDetailsQuery flt executionID) = details flt"
  by (simp_all add: summaryStore_def)

lemma Each_emptyResult [simp]: "Each (emptyResult\<lparr>Each := items\<rparr>) = items"
  by simp

lemma merge_one:
  "mergeSummary [Some (statusDocument ''ec2'' 10 1)] Map.empty =
     [''ec2'' \<mapsto> newSummaryRow (statusDocument ''ec2'' 10 1)]"
  by (simp add: statusDocument_def)

lemma merge_three:
  "mergeSummary
     [Some (statusDocument ''ec2'' 10 1), Some (statusDocument ''ec2'' 30 2),
      Some (statusDocument ''ec2'' 20 3)] Map.empty =
     [''ec2'' \<mapsto> newSummaryRow (statusDocument ''ec2'' 30 2)]"
  by (simp add: statusDocument_def newSummaryRow_def)

lemma merge_two:
  "mergeSummary [Some (statusDocument ''ec2'' 10 1), Some (statusDocument ''rds'' 20 1)] Map.empty =
     [''ec2'' \<mapsto> newSummaryRow (statusDocument ''ec2'' 10 1),
      ''rds'' \<mapsto> newSummaryRow (statusDocument ''rds'' 20 1)]"
  by (simp add: statusDocument_def)

lemma rangeOrder_one:
  "rangeOrder [''ec2''] [''ec2'' \<mapsto> row]"
  by (simp add: rangeOrder_def)

lemma rangeOrder_two:
  "rangeOrder [''ec2'', ''rds''] [''ec2'' \<mapsto> row1, ''rds'' \<mapsto> row2]"
  "rangeOrder [''rds'', ''ec2''] [''ec2'' \<mapsto> row1, ''rds'' \<mapsto> row2]"
  by (auto simp: rangeOrder_def)

text \<open>
  The example of claim C1: the times 10, 30 and 20 for one resource name.
\<close>

theorem GetSummary_keeps_latest_status_witness:
  "\<exists>summary filters' row.
     GetSummary
       (summaryStore
          [Some (statusDocument ''ec2'' 10 1), Some (statusDocument ''ec2'' 30 2),
           Some (statusDocument ''ec2'' 20 3)]
          (\<lambda>flt. sumResponse 5 2) :: (int, unit) StorageManager)
       [''ec2''] ''run_1'' (Some Map.empty) = Inr (summary, None, filters') \<and>
     summary ''ec2'' = Some row \<and>
     CollectorsSummary.EventTime row = 30 \<and> CollectorsSummary.Status row = 2"
proof -
  let ?items = "[Some (statusDocument ''ec2'' 10 1), Some (statusDocument ''ec2'' 30 2),
           Some (statusDocument ''ec2'' 20 3)]"
  let ?sm = "summaryStore ?items (\<lambda>flt. sumResponse 5 2) :: (int, unit) StorageManager"
  let ?r = "emptyResult\<lparr>Each := ?items\<rparr> :: (int, unit) SearchResult"
  have q: "client ?sm (SummaryQuery ''run_1'') = (Some ?r, None)"
    by simp
  note t = GetSummary_keeps_latest_status [OF q, of "[''ec2'']" "Some Map.empty"]
  have "(\<exists>f. Some (Map.empty :: string \<Rightarrow> string option) = Some f) \<and>
      (\<forall>flt. fst (client ?sm (SummaryDetailsQuery flt ''run_1'')) \<noteq> None)"
    by (simp add: sumResponse_def)
  with t obtain summary filters' where
    g: "GetSummary ?sm [''ec2''] ''run_1'' (Some Map.empty) = Inr (summary, None, filters')"
    by blast
  have m: "Some (statusDocument ''ec2'' 30 2) \<in> set (Each ?r)"
    by simp
  from t [THEN conjunct1, rule_format, OF conjI [OF g m]]
  obtain row d' where r: "summary (Summary.ResourceName (statusDocument ''ec2'' 30 2)) = Some row"
    "Some d' \<in> set (Each ?r)"
    "\<forall>d''. Some d'' \<in> set (Each ?r) \<and>
        Summary.ResourceName d'' = Summary.ResourceName (statusDocument ''ec2'' 30 2) \<longrightarrow>
        Summary.EventTime d'' \<le> Summary.EventTime d'"
    "CollectorsSummary.EventTime row = Summary.EventTime d'"
    "CollectorsSummary.Status row = SummaryData.Status (Data d')"
    by blast
  from r(3) m have "Summary.EventTime (statusDocument ''ec2'' 30 2) \<le> Summary.EventTime d'"
    by blast
  then have le: "30 \<le> Summary.EventTime d'"
    by (simp add: statusDocument_def)
  from r(2) have "d' = statusDocument ''ec2'' 10 1 \<or> d' = statusDocument ''ec2'' 30 2 \<or>
      d' = statusDocument ''ec2'' 20 3"
    by simp
  with le have d': "d' = statusDocument ''ec2'' 30 2"
    by (auto simp: statusDocument_def)
  have k: "Summary.ResourceName (statusDocument ''ec2'' 30 2) = ''ec2''"
    by (simp add: statusDocument_def)
  from r(1,4,5) have "summary ''ec2'' = Some row \<and>
     CollectorsSummary.EventTime row = 30 \<and> CollectorsSummary.Status row = 2"
    unfolding d' k by (simp add: statusDocument_def)
  with g show ?thesis by blast
qed

text \<open>
  A tie: the second of two documents of time 10 replaces the row of the first, in the merge
  and in what \<^verbatim>\<open>GetSummary\<close> returns.
\<close>

theorem mergeSummary_replaces_unless_incumbent_newer_witness:
  "mergeSummary [Some (statusDocument ''ec2'' 10 1)] Map.empty
     (Summary.ResourceName (statusDocument ''ec2'' 10 2)) =
     Some (newSummaryRow (statusDocument ''ec2'' 10 1) :: int CollectorsSummary) \<and>
   mergeSummary ([Some (statusDocument ''ec2'' 10 1)] @ [Some (statusDocument ''ec2'' 10 2)])
     Map.empty ''ec2'' =
     Some (newSummaryRow (statusDocument ''ec2'' 10 2) :: int CollectorsSummary) \<and>
   (\<exists>result filters' row.
      GetSummary
        (summaryStore [Some (statusDocument ''ec2'' 10 1), Some (statusDocument ''ec2'' 10 2)]
           (\<lambda>flt. sumResponse 5 2) :: (int, unit) StorageManager)
        [''ec2''] ''run_1'' (Some Map.empty) = Inr (result, None, filters') \<and>
      result ''ec2'' = Some row \<and> CollectorsSummary.Status row = 2)"
proof -
  let ?d1 = "statusDocument ''ec2'' 10 1" and ?d2 = "statusDocument ''ec2'' 10 2"
  have k: "Summary.ResourceName ?d2 = ''ec2''"
    by (simp add: statusDocument_def)
  have h: "mergeSummary [Some ?d1] Map.empty (Summary.ResourceName ?d2) =
     Some (newSummaryRow ?d1 :: int CollectorsSummary)"
    unfolding k merge_one by simp
  have t: "\<not> Summary.EventTime ?d2 <
      CollectorsSummary.EventTime (newSummaryRow ?d1 :: int CollectorsSummary)"
    by (simp add: statusDocument_def newSummaryRow_def)
  let ?sm = "summaryStore [Some ?d1, Some ?d2] (\<lambda>flt. sumResponse 5 2) :: (int, unit) StorageManager"
  let ?r = "emptyResult\<lparr>Each := [Some ?d1, Some ?d2]\<rparr> :: (int, unit) SearchResult"
  have q: "client ?sm (SummaryQuery ''run_1'') = (Some ?r, None)"
    by simp
  have e: "Each ?r = [Some ?d1] @ [Some ?d2]"
    by simp
  have "\<forall>flt. fst (client ?sm (SummaryDetailsQuery flt ''run_1'')) \<noteq> None"
    by (simp add: sumResponse_def)
  from GetSummary_returns [OF q this, of "[''ec2'']" Map.empty]
  obtain result filters' where
    g: "GetSummary ?sm [''ec2''] ''run_1'' (Some Map.empty) = Inr (result, None, filters')"
    by blast
  note inst = mergeSummary_replaces_unless_incumbent_newer
    [of "[Some ?d1]" Map.empty "?d2" "newSummaryRow ?d1 :: int CollectorsSummary"
        "?sm" "''run_1''" "?r" "[Some ?d1]" "newSummaryRow ?d1 :: int CollectorsSummary"
        "[''ec2'']" "Some Map.empty" result None filters']
  from inst [THEN conjunct1, rule_format, OF h, THEN conjunct1] t
  have a: "mergeSummary ([Some ?d1] @ [Some ?d2]) Map.empty (Summary.ResourceName ?d2) =
     Some (newSummaryRow ?d2 :: int CollectorsSummary)"
    by (simp only: if_False)
  from inst [THEN conjunct2, rule_format, OF conjI [OF q conjI [OF e conjI [OF h g]]]] t
  obtain row where "result (Summary.ResourceName ?d2) = Some row"
    "CollectorsSummary.Status row = SummaryData.Status (Data ?d2)"
    by (auto simp only: if_False)
  then have b: "result ''ec2'' = Some row \<and> CollectorsSummary.Status row = 2"
    unfolding k by (simp add: statusDocument_def)
  from h a [unfolded k] g b show ?thesis by blast
qed

text \<open>
  Claim C8 as stated fails: the incumbent row and the new document have the same
  \<^verbatim>\<open>EventTime\<close> and the row is not kept.
\<close>

theorem mergeSummary_tie_keeps_incumbent_counterexample:
  "CollectorsSummary.EventTime (newSummaryRow (statusDocument ''ec2'' 10 1) :: int CollectorsSummary) =
     Summary.EventTime (statusDocument ''ec2'' 10 2) \<and>
   mergeSummary [Some (statusDocument ''ec2'' 10 1)] Map.empty ''ec2'' =
     Some (newSummaryRow (statusDocument ''ec2'' 10 1) :: int CollectorsSummary) \<and>
   mergeSummary [Some (statusDocument ''ec2'' 10 1), Some (statusDocument ''ec2'' 10 2)]
     Map.empty ''ec2'' \<noteq>
     Some (newSummaryRow (statusDocument ''ec2'' 10 1) :: int CollectorsSummary)"
  by (simp add: statusDocument_def newSummaryRow_def)

text \<open>
  Two resources, the cost query of \<^verbatim>\<open>ec2\<close> fails: the call panics in both
  orders of the range loop.
\<close>

theorem GetSummary_nil_result_panics_witness:
  "GetSummary
     (summaryStore [Some (statusDocument ''ec2'' 10 1), Some (statusDocument ''rds'' 20 1)]
        (\<lambda>flt. if flt ''ResourceName'' = Some ''ec2''
               then (None, Some (Error ''connection refused''))
               else sumResponse 5 2) :: (int, unit) StorageManager)
     [''rds'', ''ec2''] ''run_1'' (Some Map.empty) = Inl NilPointerDereference \<and>
   GetSummary
     (summaryStore [Some (statusDocument ''ec2'' 10 1), Some (statusDocument ''rds'' 20 1)]
        (\<lambda>flt. if flt ''ResourceName'' = Some ''ec2''
               then (None, Some (Error ''connection refused''))
               else sumResponse 5 2) :: (int, unit) StorageManager)
     [''ec2'', ''rds''] ''run_1'' (Some Map.empty) = Inl NilPointerDereference"
proof -
  let ?items = "[Some (statusDocument ''ec2'' 10 1), Some (statusDocument ''rds'' 20 1)]"
  let ?sm = "summaryStore ?items
        (\<lambda>flt. if flt ''ResourceName'' = Some ''ec2''
               then (None, Some (Error ''connection refused''))
               else sumResponse 5 2) :: (int, unit) StorageManager"
  let ?r = "emptyResult\<lparr>Each := ?items\<rparr> :: (int, unit) SearchResult"
  have q: "client ?sm (SummaryQuery ''run_1'') = (Some ?r, None)"
    by simp
  have ro: "rangeOrder [''rds'', ''ec2'']
      (mergeSummary (Each ?r) Map.empty :: string \<Rightarrow> int CollectorsSummary option)"
    "rangeOrder [''ec2'', ''rds'']
      (mergeSummary (Each ?r) Map.empty :: string \<Rightarrow> int CollectorsSummary option)"
    unfolding Each_emptyResult merge_two by (rule rangeOrder_two)+
  have c: "client ?sm (SummaryDetailsQuery (Map.empty(''ResourceName'' \<mapsto> ''ec2'')) ''run_1'') =
      (None, Some (Error ''connection refused''))"
    by simp
  have "GetSummary ?sm [''rds'', ''ec2''] ''run_1'' (Some Map.empty) = Inl NilPointerDereference"
    by (rule GetSummary_nil_result_panics [OF q ro(1) _ c]) simp
  moreover
  have "GetSummary ?sm [''ec2'', ''rds''] ''run_1'' (Some Map.empty) = Inl NilPointerDereference"
    by (rule GetSummary_nil_result_panics [OF q ro(2) _ c]) simp
  ultimately show ?thesis by blast
qed

text \<open>
  Claim C2 as stated fails: the cost answer has no \<^verbatim>\<open>sum\<close> aggregation and
  the call returns a \<^verbatim>\<open>nil\<close> error and a row with cost 0 and count 0.
\<close>

theorem GetSummary_malformed_aggregation_counterexample:
  "\<exists>summary filters' row.
     GetSummary
       (summaryStore [Some (statusDocument ''ec2'' 10 1)] (\<lambda>flt. (Some emptyResult, None))
          :: (int, unit) StorageManager)
       [''ec2''] ''run_1'' (Some Map.empty) = Inr (summary, None, filters') \<and>
     summary ''ec2'' = Some row \<and> TotalSpent row = 0 \<and> ResourceCount row = 0"
  by (simp add: GetSummary_def getResourceSummaryDetails_def emptyResult_def
      statusDocument_def newSummaryRow_def)

text \<open>
  An unreachable store for the status query, and a store whose cost answer has no
  \<^verbatim>\<open>sum\<close> aggregation.
\<close>

theorem GetSummary_fails_only_on_status_query_witness:
  "GetSummary (unreachableStore (Error ''connection refused'') :: (int, unit) StorageManager)
     [] ''run_1'' (Some Map.empty) =
     Inr (Map.empty, Some (Error ''connection refused''), Some Map.empty) \<and>
   (\<exists>res. client (unreachableStore (Error ''connection refused'') :: (int, unit) StorageManager)
           (SummaryQuery ''run_1'') = (res, Some (Error ''connection refused''))) \<and>
   (\<exists>summary filters' row.
     GetSummary
       (summaryStore [Some (statusDocument ''ec2'' 10 1)] (\<lambda>flt. (Some emptyResult, None))
          :: (int, unit) StorageManager)
       [''ec2''] ''run_1'' (Some Map.empty) = Inr (summary, None, filters') \<and>
     summary ''ec2'' = Some row \<and> TotalSpent row = 0 \<and> ResourceCount row = 0)"
proof -
  let ?u = "unreachableStore (Error ''connection refused'') :: (int, unit) StorageManager"
  have qu: "client ?u (SummaryQuery ''run_1'') = (None, Some (Error ''connection refused''))"
    by (simp add: unreachableStore_def)
  from GetSummary_fails_only_on_status_query
    [of ?u "''run_1''" None "Error ''connection refused''" "[]" "Some Map.empty", THEN conjunct1] qu
  have a: "GetSummary ?u [] ''run_1'' (Some Map.empty) =
     Inr (Map.empty, Some (Error ''connection refused''), Some Map.empty)"
    by blast
  from GetSummary_fails_only_on_status_query
    [of ?u "''run_1''" None "Error ''connection refused''" "[]" "Some Map.empty",
     THEN conjunct2, THEN conjunct1, rule_format, OF a]
  have a': "\<exists>res. client ?u (SummaryQuery ''run_1'') = (res, Some (Error ''connection refused''))"
    by blast
  let ?items = "[Some (statusDocument ''ec2'' 10 1)]"
  let ?sm = "summaryStore ?items (\<lambda>flt. (Some emptyResult, None)) :: (int, unit) StorageManager"
  let ?r = "emptyResult\<lparr>Each := ?items\<rparr> :: (int, unit) SearchResult"
  have q: "client ?sm (SummaryQuery ''run_1'') = (Some ?r, None)"
    by simp
  have ro: "rangeOrder [''ec2'']
      (mergeSummary (Each ?r) Map.empty :: string \<Rightarrow> int CollectorsSummary option)"
    unfolding Each_emptyResult merge_one by (rule rangeOrder_one)
  have nn: "\<forall>k\<in>set [''ec2''].
       fst (client ?sm (SummaryDetailsQuery (Map.empty(''ResourceName'' \<mapsto> k)) ''run_1'')) \<noteq> None"
    by simp
  from GetSummary_fails_only_on_status_query
    [of ?sm "''run_1''" None "Error ''connection refused''" "[''ec2'']" "Some Map.empty" ?r Map.empty,
     THEN conjunct2, THEN conjunct2, rule_format, OF conjI [OF q conjI [OF ro nn]]]
  obtain summary filters' where s:
    "GetSummary ?sm [''ec2''] ''run_1'' (Some Map.empty) = Inr (summary, None, filters')"
    "\<forall>k r'. k \<in> set [''ec2''] \<and>
        client ?sm (SummaryDetailsQuery (Map.empty(''ResourceName'' \<mapsto> k)) ''run_1'') = (Some r', None) \<and>
        (Terms_sum r' = None \<or> (\<exists>resp. Terms_sum r' = Some resp \<and> resp ''value'' = None)) \<longrightarrow>
        (\<exists>row. summary k = Some row \<and> TotalSpent row = 0 \<and> ResourceCount row = 0)"
    by blast
  have "''ec2'' \<in> set [''ec2''] \<and>
        client ?sm (SummaryDetailsQuery (Map.empty(''ResourceName'' \<mapsto> ''ec2'')) ''run_1'') =
          (Some (emptyResult :: (int, unit) SearchResult), None) \<and>
        (Terms_sum (emptyResult :: (int, unit) SearchResult) = None \<or>
         (\<exists>resp. Terms_sum (emptyResult :: (int, unit) SearchResult) = Some resp \<and> resp ''value'' = None))"
    by (simp add: emptyResult_def)
  with s(2) obtain row where "summary ''ec2'' = Some row \<and> TotalSpent row = 0 \<and> ResourceCount row = 0"
    by blast
  with s(1) a a' show ?thesis by blast
qed

text \<open>
  Two resources visited in the two possible orders, an unreachable store, and two stores
  that differ in the index name only.
\<close>

theorem GetSummary_same_result_but_writes_filters_witness:
  "(\<exists>summary err filters2.
     GetSummary
       (summaryStore [Some (statusDocument ''ec2'' 10 1), Some (statusDocument ''rds'' 20 1)]
          (\<lambda>flt. sumResponse 5 2) :: (int, unit) StorageManager)
       [''ec2'', ''rds''] ''run_1'' (Some Map.empty) =
       Inr (summary, err, Some [''ResourceName'' \<mapsto> ''rds'']) \<and>
     GetSummary
       (summaryStore [Some (statusDocument ''ec2'' 10 1), Some (statusDocument ''rds'' 20 1)]
          (\<lambda>flt. sumResponse 5 2) :: (int, unit) StorageManager)
       [''rds'', ''ec2''] ''run_1'' (Some [''ResourceName'' \<mapsto> ''rds'']) =
       Inr (summary, err, filters2)) \<and>
   GetSummary (unreachableStore (Error ''connection refused'') :: (int, unit) StorageManager)
     [] ''run_1'' (Some Map.empty) =
     Inr (Map.empty, Some (Error ''connection refused''), Some Map.empty) \<and>
   GetExecutions (executionsStore [''a_1''] :: (int, unit) StorageManager) 3 =
     GetExecutions ((executionsStore [''a_1''] :: (int, unit) StorageManager)
                      \<lparr>defaultIndex := ''other''\<rparr>) 3 \<and>
   GetResources (resourcesStore [((), None)] :: (int, unit) StorageManager) ''ec2'' ''run_1'' =
     GetResources ((resourcesStore [((), None)] :: (int, unit) StorageManager)
                     \<lparr>defaultIndex := ''other''\<rparr>) ''ec2'' ''run_1''"
proof -
  let ?items = "[Some (statusDocument ''ec2'' 10 1), Some (statusDocument ''rds'' 20 1)]"
  let ?sm = "summaryStore ?items (\<lambda>flt. sumResponse 5 2) :: (int, unit) StorageManager"
  let ?r = "emptyResult\<lparr>Each := ?items\<rparr> :: (int, unit) SearchResult"
  have q: "client ?sm (SummaryQuery ''run_1'') = (Some ?r, None)"
    by simp
  have ro: "rangeOrder [''ec2'', ''rds'']
      (mergeSummary (Each ?r) Map.empty :: string \<Rightarrow> int CollectorsSummary option)"
    "rangeOrder [''rds'', ''ec2'']
      (mergeSummary (Each ?r) Map.empty :: string \<Rightarrow> int CollectorsSummary option)"
    unfolding Each_emptyResult merge_two by (rule rangeOrder_two)+
  have "\<forall>flt. fst (client ?sm (SummaryDetailsQuery flt ''run_1'')) \<noteq> None"
    by (simp add: sumResponse_def)
  from GetSummary_returns [OF q this, of "[''ec2'', ''rds'']" Map.empty]
  obtain summary filters1 where
    g: "GetSummary ?sm [''ec2'', ''rds''] ''run_1'' (Some Map.empty) = Inr (summary, None, filters1)"
    by blast
  note t = GetSummary_same_result_but_writes_filters
    [where sm = "?sm" and executionID = "''run_1''" and r = "?r" and firstKeys = "[''ec2'', ''rds'']"
       and secondKeys = "[''rds'', ''ec2'']" and f = Map.empty and summary = summary and err = None
       and firstFilters = filters1, THEN conjunct1, rule_format,
     OF conjI [OF q conjI [OF ro(1) conjI [OF ro(2) g]]]]
  have f1: "filters1 = Some [''ResourceName'' \<mapsto> ''rds'']"
    using t [THEN conjunct1] by simp
  from t [THEN conjunct2] obtain filters2 where
    "GetSummary ?sm [''rds'', ''ec2''] ''run_1'' filters1 = Inr (summary, None, filters2)"
    by blast
  then have
    g2: "GetSummary ?sm [''rds'', ''ec2''] ''run_1'' (Some [''ResourceName'' \<mapsto> ''rds'']) =
      Inr (summary, None, filters2)"
    unfolding f1 .
  from g [unfolded f1] g2 have A: "\<exists>summary err filters2.
     GetSummary ?sm [''ec2'', ''rds''] ''run_1'' (Some Map.empty) =
       Inr (summary, err, Some [''ResourceName'' \<mapsto> ''rds'']) \<and>
     GetSummary ?sm [''rds'', ''ec2''] ''run_1'' (Some [''ResourceName'' \<mapsto> ''rds'']) =
       Inr (summary, err, filters2)"
    by blast
  let ?u = "unreachableStore (Error ''connection refused'') :: (int, unit) StorageManager"
  have qu: "client ?u (SummaryQuery ''run_1'') = (None, Some (Error ''connection refused''))"
    by (simp add: unreachableStore_def)
  from GetSummary_same_result_but_writes_filters
    [where sm = "?u" and executionID = "''run_1''" and searchResult = None
       and queryError = "Error ''connection refused''" and keys = "[]"
       and filters = "Some Map.empty",
     THEN conjunct2, THEN conjunct1, rule_format, OF qu]
  have B: "GetSummary ?u [] ''run_1'' (Some Map.empty) =
     Inr (Map.empty, Some (Error ''connection refused''), Some Map.empty)" .
  let ?e = "executionsStore [''a_1''] :: (int, unit) StorageManager"
  have qe: "client ?e (ExecutionsQuery 3) = client (?e\<lparr>defaultIndex := ''other''\<rparr>) (ExecutionsQuery 3)"
    by simp
  from GetSummary_same_result_but_writes_filters
    [where sm = "?e" and sm' = "?e\<lparr>defaultIndex := ''other''\<rparr>" and queryLimit = 3,
     THEN conjunct2, THEN conjunct2, THEN conjunct1, rule_format, OF qe]
  have C: "GetExecutions ?e 3 = GetExecutions (?e\<lparr>defaultIndex := ''other''\<rparr>) 3" .
  let ?h = "resourcesStore [((), None)] :: (int, unit) StorageManager"
  have qh: "client ?h (ResourcesQuery ''ec2'' ''run_1'') =
      client (?h\<lparr>defaultIndex := ''other''\<rparr>) (ResourcesQuery ''ec2'' ''run_1'')"
    by simp
  from GetSummary_same_result_but_writes_filters
    [where sm = "?h" and sm' = "?h\<lparr>defaultIndex := ''other''\<rparr>" and resourceType = "''ec2''"
       and executionID = "''run_1''",
     THEN conjunct2, THEN conjunct2, THEN conjunct2, rule_format, OF qh]
  have D: "GetResources ?h ''ec2'' ''run_1'' =
      GetResources (?h\<lparr>defaultIndex := ''other''\<rparr>) ''ec2'' ''run_1''" .
  from A B C D show ?thesis by blast
qed

text \<open>
  Claim C9 as stated fails: the caller's empty filters map comes back with the key
  \<^verbatim>\<open>ResourceName\<close>.
\<close>

theorem GetSummary_leaves_filters_unchanged_counterexample:
  "\<exists>summary err.
     GetSummary
       (summaryStore [Some (statusDocument ''ec2'' 10 1)] (\<lambda>flt. sumResponse 5 2)
          :: (int, unit) StorageManager)
       [''ec2''] ''run_1'' (Some Map.empty) =
       Inr (summary, err, Some [''ResourceName'' \<mapsto> ''ec2'']) \<and>
     Some [''ResourceName'' \<mapsto> ''ec2''] \<noteq> Some (Map.empty :: string \<Rightarrow> string option)"
  by (simp add: GetSummary_def getResourceSummaryDetails_def sumResponse_def emptyResult_def
      statusDocument_def newSummaryRow_def)

subsection \<open>Resources and failing executions queries\<close>

lemma appendHits_eq: "appendHits hits resources = resources @ map fst hits"
  by (induction hits arbitrary: resources) auto

text \<open>
  Claim C7 says that a document whose body fails to decode is dropped from the result.
  Lines 324--326 log the error of \<^verbatim>\<open>json.Unmarshal\<close> and line 328 appends
  \<^verbatim>\<open>rowData\<close> all the same (the loops of \<^verbatim>\<open>GetSummary\<close> and
  \<^verbatim>\<open>GetExecutions\<close> leave the iteration with \<^verbatim>\<open>continue\<close> after
  their log statements): the call returns one element for every hit, in order, whether
  its body decoded or not, with a \<^verbatim>\<open>nil\<close> error.
\<close>

theorem GetResources_appends_every_hit:
  assumes "client sm (ResourcesQuery resourceType executionID) = (Some r, None)"
  shows "GetResources sm resourceType executionID = Inr (map fst (Hits r), None)"
  using assms by (simp add: GetResources_def appendHits_eq)

text \<open>
  Two hits, the second with a body that does not decode: the result has two elements, the
  second the empty map that \<^verbatim>\<open>make\<close> created.
\<close>

theorem GetResources_appends_every_hit_witness:
  "GetResources
     (resourcesStore
        [([(''ResourceID'', ''i-1'')], None),
         ([], Some (Error ''unexpected end of JSON input''))] ::
        (int, (string \<times> string) list) StorageManager)
     ''ec2'' ''run_1'' =
     Inr ([[(''ResourceID'', ''i-1'')], []], None)"
proof -
  let ?hits = "[([(''ResourceID'', ''i-1'')], None),
         ([], Some (Error ''unexpected end of JSON input''))] :: ((string \<times> string) list \<times> error option) list"
  have "client (resourcesStore ?hits :: (int, (string \<times> string) list) StorageManager)
      (ResourcesQuery ''ec2'' ''run_1'') = (Some (emptyResult\<lparr>Hits := ?hits\<rparr>), None)"
    by (simp add: resourcesStore_def)
  from GetResources_appends_every_hit [OF this] show ?thesis
    by simp
qed

text \<open>
  Claim C4 says that a failing executions query gives an empty sequence and a
  \<^verbatim>\<open>nil\<close> error. In the branch \<^verbatim>\<open>nil != err\<close> the log statement reads
  \<^verbatim>\<open>searchResult.TookInMillis\<close> (line 254) before the return of line 256. When
  the query returns its error with a \<^verbatim>\<open>nil\<close> result, as \<^verbatim>\<open>Do\<close> of
  the Elasticsearch client does, \<^verbatim>\<open>GetExecutions\<close> panics. (The rest of the
  claim holds: an error that comes with a result, and an answer without the aggregation
  \<^verbatim>\<open>orderedExecutionID\<close>, give the empty sequence, and no call returns an
  error; lemmas \<open>GetExecutions_query_error_with_result\<close>,
  \<open>GetExecutions_aggregation_absent\<close> and \<open>GetExecutions_never_returns_error\<close>.)
\<close>

theorem GetExecutions_nil_result_panics:
  assumes "client sm (ExecutionsQuery queryLimit) = (None, Some err)"
  shows "GetExecutions sm queryLimit = Inl NilPointerDereference"
  using assms by (simp add: GetExecutions_def)

text \<open>
  A store that cannot be reached.
\<close>

theorem GetExecutions_nil_result_panics_witness:
  "GetExecutions (unreachableStore (Error ''connection refused'') :: (int, unit) StorageManager) 3 =
     Inl NilPointerDereference"
proof -
  have "client (unreachableStore (Error ''connection refused'') :: (int, unit) StorageManager)
      (ExecutionsQuery 3) = (None, Some (Error ''connection refused''))"
    by (simp add: unreachableStore_def)
  then show ?thesis by (rule GetExecutions_nil_result_panics)
qed

lemma GetExecutions_query_error_with_result:
  "client sm (ExecutionsQuery queryLimit) = (Some r, Some err) \<Longrightarrow>
   GetExecutions sm queryLimit = Inr ([], None)"
  by (simp add: GetExecutions_def)

lemma GetExecutions_aggregation_absent:
  "client sm (ExecutionsQuery queryLimit) = (Some r, None) \<Longrightarrow>
   Terms_orderedExecutionID r = None \<Longrightarrow>
   GetExecutions sm queryLimit = Inr ([], None)"
  by (simp add: GetExecutions_def)

lemma GetExecutions_never_returns_error:
  "GetExecutions sm queryLimit = Inr (executions, err) \<Longrightarrow> err = None"
  by (auto simp: GetExecutions_def Let_def split: prod.splits option.splits)

subsection \<open>The order and the number of the executions\<close>

lemma map_ID_map_filter_executionOf:
  "map ID (List.map_filter executionOf ks) = filter (\<lambda>k. executionOf k \<noteq> None) ks"
  by (induction ks) (auto simp: List.map_filter_simps dest: executionOf_ID split: option.splits)

lemma set_rankedExecutionIDs:
  "set (rankedExecutionIDs events) =
     documentExecutionID ` {e \<in> set events. documentEventType e = ''service_status''}"
  by (auto simp: rankedExecutionIDs_def)

lemma distinct_rankedExecutionIDs: "distinct (rankedExecutionIDs events)"
  by (simp add: rankedExecutionIDs_def)

lemma sorted_rankedExecutionIDs:
  "sorted_wrt (\<lambda>a b. maxEventTime events b \<le> maxEventTime events a) (rankedExecutionIDs events)"
proof -
  have "sorted (map (\<lambda>k. - maxEventTime events k) (rankedExecutionIDs events))"
    by (simp add: rankedExecutionIDs_def)
  then show ?thesis
    by (simp add: sorted_map)
qed

lemma GetExecutions_eventStore:
  "GetExecutions (eventStore events) queryLimit =
     Inr (List.map_filter executionOf (take (nat queryLimit) (rankedExecutionIDs events)), None)"
proof -
  let ?r = "emptyResult\<lparr>Terms_orderedExecutionID :=
       Some [(\<lparr>Buckets = take (nat queryLimit) (rankedExecutionIDs events)\<rparr>, None)]\<rparr>"
  have q: "client (eventStore events) (ExecutionsQuery queryLimit) = (Some ?r, None)"
    by (simp add: eventStore_def)
  have t: "Terms_orderedExecutionID ?r =
      Some [(\<lparr>Buckets = take (nat queryLimit) (rankedExecutionIDs events)\<rparr>, None)]"
    by simp
  from GetExecutions_eq [OF q t] show ?thesis by simp
qed

text \<open>
  Claim C6. For every limit and every list of event documents the store holds,
  \<^verbatim>\<open>GetExecutions\<close> returns, with a \<^verbatim>\<open>nil\<close> error, at most as many
  records as the limit allows (none for a limit below 1), in descending order of the
  maximum \<^verbatim>\<open>EventTime\<close> of the \<^verbatim>\<open>service_status\<close> events that carry
  their \<^verbatim>\<open>ExecutionID\<close>. The records are those of the identifiers that decode
  among the first identifiers of the ranking, as many as the limit; the ranking lists each
  execution identifier of a \<^verbatim>\<open>service_status\<close> event once, most recent first.
  The code passes the limit and the order to the store (line 248) and keeps the order of
  its answer; the answer of the store is the one modelled from the specification.
\<close>

theorem GetExecutions_most_recent_first:
  "\<exists>executions.
     GetExecutions (eventStore events) queryLimit = Inr (executions, None) \<and>
     length executions \<le> nat queryLimit \<and>
     sorted_wrt (\<lambda>a b. maxEventTime events (ID b) \<le> maxEventTime events (ID a)) executions \<and>
     map ID executions =
       filter (\<lambda>k. executionOf k \<noteq> None) (take (nat queryLimit) (rankedExecutionIDs events)) \<and>
     executions =
       List.map_filter executionOf (take (nat queryLimit) (rankedExecutionIDs events)) \<and>
     set (rankedExecutionIDs events) =
       documentExecutionID ` {e \<in> set events. documentEventType e = ''service_status''} \<and>
     distinct (rankedExecutionIDs events) \<and>
     sorted_wrt (\<lambda>a b. maxEventTime events b \<le> maxEventTime events a)
       (rankedExecutionIDs events)"
proof -
  let ?ks = "take (nat queryLimit) (rankedExecutionIDs events)"
  let ?ex = "List.map_filter executionOf ?ks"
  have len: "length ?ex \<le> nat queryLimit"
  proof -
    have "length ?ex = length (filter (\<lambda>k. executionOf k \<noteq> None) ?ks)"
      by (simp add: List.map_filter_def)
    also have "\<dots> \<le> length ?ks" by (rule length_filter_le)
    also have "\<dots> \<le> nat queryLimit" by simp
    finally show ?thesis .
  qed
  have ids: "map ID ?ex = filter (\<lambda>k. executionOf k \<noteq> None) ?ks"
    by (rule map_ID_map_filter_executionOf)
  have "sorted_wrt (\<lambda>a b. maxEventTime events b \<le> maxEventTime events a)
      (filter (\<lambda>k. executionOf k \<noteq> None) ?ks)"
    by (intro sorted_wrt_filter sorted_wrt_take sorted_rankedExecutionIDs)
  then have "sorted_wrt (\<lambda>a b. maxEventTime events b \<le> maxEventTime events a) (map ID ?ex)"
    by (simp only: ids)
  then have srt: "sorted_wrt (\<lambda>a b. maxEventTime events (ID b) \<le> maxEventTime events (ID a)) ?ex"
    by (simp add: sorted_wrt_map)
  from GetExecutions_eventStore [of events queryLimit] len srt ids
    set_rankedExecutionIDs [of events] distinct_rankedExecutionIDs [of events]
    sorted_rankedExecutionIDs [of events]
  show ?thesis by blast
qed


lemma ranked_fiveExecutions:
  "rankedExecutionIDs fiveExecutions =
     [''run-e_500'', ''run-c_300'', ''run-b_200'', ''run-d_400'', ''run-a_100'']"
  by code_simp

lemma executionOf_five:
  "executionOf ''run-e_500'' = Some \<lparr>ID = ''run-e_500'', Name = ''run-e'', Time = Unix 500 0\<rparr>"
  "executionOf ''run-c_300'' = Some \<lparr>ID = ''run-c_300'', Name = ''run-c'', Time = Unix 300 0\<rparr>"
  "executionOf ''run-b_200'' = Some \<lparr>ID = ''run-b_200'', Name = ''run-b'', Time = Unix 200 0\<rparr>"
  by code_simp+

text \<open>
  The example of claim C6: a limit of 3 over five executions gives the three most recent.
\<close>

theorem GetExecutions_most_recent_first_witness:
  "GetExecutions (eventStore fiveExecutions :: (int, unit) StorageManager) 3 =
     Inr ([\<lparr>ID = ''run-e_500'', Name = ''run-e'', Time = Unix 500 0\<rparr>,
           \<lparr>ID = ''run-c_300'', Name = ''run-c'', Time = Unix 300 0\<rparr>,
           \<lparr>ID = ''run-b_200'', Name = ''run-b'', Time = Unix 200 0\<rparr>], None)"
proof -
  from GetExecutions_most_recent_first [of fiveExecutions 3]
  obtain executions where
    g: "GetExecutions (eventStore fiveExecutions :: (int, unit) StorageManager) 3 =
      Inr (executions, None)"
    and e: "executions = List.map_filter executionOf (take (nat 3) (rankedExecutionIDs fiveExecutions))"
    by blast
  from e have "executions =
      [\<lparr>ID = ''run-e_500'', Name = ''run-e'', Time = Unix 500 0\<rparr>,
       \<lparr>ID = ''run-c_300'', Name = ''run-c'', Time = Unix 300 0\<rparr>,
       \<lparr>ID = ''run-b_200'', Name = ''run-b'', Time = Unix 200 0\<rparr>]"
    by (simp add: ranked_fiveExecutions List.map_filter_simps executionOf_five)
  with g show ?thesis by simp
qed

end
